theory Spec2Isabelle
  imports Complex_Main
begin

section \<open>Python values and exceptions\<close>

text \<open>
  Python floats are modelled as exact reals: rounding of binary floating point, infinities
  and NaN are outside the model.  A JSON field read with \<^verbatim>\<open>dict.get\<close> is a number or
  \<^verbatim>\<open>None\<close> (absent and null coincide there).  Every exception the modelled code can raise is
  a value of \<open>py_error\<close>; a function that can raise returns \<open>py_error + 'a\<close>.
\<close>

datatype py_error =
    ValueError | TypeError | ZeroDivisionError
  | TimeExhausted | APIError | ClientError

datatype pyval = PyNone | PyFloat real

text \<open>\<^verbatim>\<open>int(x)\<close> on a float truncates toward zero.\<close>

definition py_int :: "real \<Rightarrow> int" where
  "py_int x = (if 0 \<le> x then \<lfloor>x\<rfloor> else \<lceil>x\<rceil>)"

text \<open>\<^verbatim>\<open>str.upper()\<close>, on ASCII letters; other bytes are left as they are.\<close>

definition upper_char :: "char \<Rightarrow> char" where
  "upper_char c =
     (let n = (of_char c :: nat) in if 97 \<le> n \<and> n \<le> 122 then char_of (n - 32) else c)"

definition upper :: "string \<Rightarrow> string" where
  "upper s = map upper_char s"


section \<open>The on-chain publishers\<close>

text \<open>
  \<^verbatim>\<open>Push_h200_provider_specific_markets.py\<close> (class \<^verbatim>\<open>H200PriceUpdater\<close>) and
  \<^verbatim>\<open>push_to_contract.py\<close> (class \<^verbatim>\<open>H200OraclePriceUpdater\<close>).
\<close>

definition PRICE_DECIMALS :: nat where
  "PRICE_DECIMALS = 18"

record provider_info =
  asset_id :: string
  name :: string
  default_price :: real

definition H200_PROVIDERS :: "(string \<times> provider_info) list" where
  "H200_PROVIDERS =
    [(''ORACLE'', \<lparr>asset_id = ''0x5d5f627ba6daf1427a1559c3200cbe7ebf105d0df0ec1610c6b89d54a314bf51'',
        name = ''Oracle Cloud H200'', default_price = 2.92\<rparr>),
     (''AWS'', \<lparr>asset_id = ''0xb377854a672b5274c99b24e7fe27d9661c60c8b697ca4f974208162655716b3e'',
        name = ''AWS H200'', default_price = 2.65\<rparr>),
     (''COREWEAVE'', \<lparr>asset_id = ''0xa05f2ef65a5f11da36153346f35e9cdb554962e858a95c7f79075cd3a4c6ddfd'',
        name = ''CoreWeave H200'', default_price = 2.57\<rparr>),
     (''GCP'', \<lparr>asset_id = ''0x0ba2d87db04ca970c41ab4334516ce12e74356d71ee96e228fb1ba5d519aaaf4'',
        name = ''Google Cloud H200'', default_price = 4.55\<rparr>),
     (''AZURE'', \<lparr>asset_id = ''0x12b283ae476f0251b7a6eaa8d414a3260644e167d9253ef1e72d49e2c8291e61'',
        name = ''Azure H200'', default_price = 5.05\<rparr>)]"

definition H200_ASSET_ID :: string where
  "H200_ASSET_ID = ''0x4d8595569ab5d2563e4c149c5de961d0e0732cd0560020b3474d281189c2571e''"

text \<open>The two entries of the contract's ABI that write prices.\<close>

datatype contract_call =
    UpdatePrice string int
  | BatchUpdatePrices "string list" "int list"

record transaction =
  tx_func :: contract_call
  tx_from :: string
  tx_nonce :: nat
  tx_gas :: int
  tx_maxFeePerGas :: int
  tx_maxPriorityFeePerGas :: int
  tx_chainId :: int

record receipt =
  status :: int
  gasUsed :: int

text \<open>
  The updater's view of the node (\<^verbatim>\<open>self.w3\<close>, \<^verbatim>\<open>self.address\<close>): what the node answers is a
  field, what the updater changes (the transactions it has submitted) is the state
  \<open>mempool\<close>.  \<open>receipt_within u h t\<close> is the receipt the node has for transaction \<open>h\<close>
  within \<open>t\<close> seconds, if any.  Reading the gas price and the transaction count, building
  the transaction and signing it are taken to succeed; submitting it and waiting for its
  receipt can raise.
\<close>

record w3 =
  gas_price :: int
  chain_id :: int
  address :: string
  transaction_count :: nat
  send_raw_result :: "transaction \<Rightarrow> py_error + string"
  receipt_within :: "string \<Rightarrow> nat \<Rightarrow> receipt option"
  mempool :: "transaction list"

text \<open>\<^verbatim>\<open>Web3.to_wei(n, "gwei")\<close>.\<close>

definition to_wei_gwei :: "int \<Rightarrow> int" where
  "to_wei_gwei n = n * 1000000000"

definition send_raw_transaction :: "w3 \<Rightarrow> transaction \<Rightarrow> (py_error + string) \<times> w3" where
  "send_raw_transaction u tx =
     (case send_raw_result u tx of
        Inl e \<Rightarrow> (Inl e, u)
      | Inr tx_hash \<Rightarrow> (Inr tx_hash, u\<lparr>mempool := mempool u @ [tx]\<rparr>))"

text \<open>\<^verbatim>\<open>wait_for_transaction_receipt(tx_hash, timeout)\<close> raises when the time is exhausted.\<close>

definition wait_for_transaction_receipt :: "w3 \<Rightarrow> string \<Rightarrow> nat \<Rightarrow> py_error + receipt" where
  "wait_for_transaction_receipt u tx_hash timeout =
     (case receipt_within u tx_hash timeout of
        None \<Rightarrow> Inl TimeExhausted
      | Some r \<Rightarrow> Inr r)"

subsection \<open>\<^verbatim>\<open>H200PriceUpdater\<close>\<close>

definition build_dynamic_fee :: "w3 \<Rightarrow> int \<times> int" where
  "build_dynamic_fee u =
     (let base_fee = gas_price u;
          max_priority = to_wei_gwei 1;
          max_fee = max (base_fee * 2) (max_priority * 2)
      in (max_fee, max_priority))"

definition send_transaction ::
  "w3 \<Rightarrow> contract_call \<Rightarrow> int \<Rightarrow> (py_error + string \<times> receipt) \<times> w3" where
  "send_transaction u func gas_limit =
     (case build_dynamic_fee u of (max_fee, max_priority) \<Rightarrow>
        (let tx = \<lparr>tx_func = func, tx_from = address u, tx_nonce = transaction_count u,
                   tx_gas = gas_limit, tx_maxFeePerGas = max_fee,
                   tx_maxPriorityFeePerGas = max_priority, tx_chainId = chain_id u\<rparr>
         in case send_raw_transaction u tx of
              (Inl e, u') \<Rightarrow> (Inl e, u')
            | (Inr tx_hash, u') \<Rightarrow>
                (case wait_for_transaction_receipt u' tx_hash 180 of
                   Inl e \<Rightarrow> (Inl e, u')
                 | Inr r \<Rightarrow> (Inr (tx_hash, r), u'))))"

text \<open>
  \<^verbatim>\<open>update_single_price\<close>: the receipt's status is printed (\<^verbatim>\<open>Success\<close> or \<^verbatim>\<open>Failed\<close>) and
  the transaction hash is returned either way.
\<close>

definition update_single_price :: "w3 \<Rightarrow> string \<Rightarrow> real \<Rightarrow> (py_error + string) \<times> w3" where
  "update_single_price u provider price_usd =
     (case map_of H200_PROVIDERS (upper provider) of
        None \<Rightarrow> (Inl ValueError, u)
      | Some info \<Rightarrow>
          (let price_scaled = py_int (price_usd * 10 ^ PRICE_DECIMALS)
           in case send_transaction u (UpdatePrice (asset_id info) price_scaled) 100000 of
                (Inl e, u') \<Rightarrow> (Inl e, u')
              | (Inr (tx_hash, r), u') \<Rightarrow> (Inr tx_hash, u')))"

text \<open>The loop of \<^verbatim>\<open>batch_update_prices\<close> over \<^verbatim>\<open>prices.items()\<close>, filling the two arrays.\<close>

fun batch_collect ::
  "(string \<times> real) list \<Rightarrow> string list \<Rightarrow> int list \<Rightarrow> py_error + string list \<times> int list" where
  "batch_collect [] asset_ids new_prices = Inr (asset_ids, new_prices)"
| "batch_collect ((provider, price_usd) # rest) asset_ids new_prices =
     (case map_of H200_PROVIDERS (upper provider) of
        None \<Rightarrow> Inl ValueError
      | Some info \<Rightarrow>
          batch_collect rest (asset_ids @ [asset_id info])
            (new_prices @ [py_int (price_usd * 10 ^ PRICE_DECIMALS)]))"

definition batch_update_prices ::
  "w3 \<Rightarrow> (string \<times> real) list \<Rightarrow> (py_error + string) \<times> w3" where
  "batch_update_prices u prices =
     (case batch_collect prices [] [] of
        Inl e \<Rightarrow> (Inl e, u)
      | Inr (asset_ids, new_prices) \<Rightarrow>
          (case send_transaction u (BatchUpdatePrices asset_ids new_prices)
                  (50000 + int (length asset_ids) * 30000) of
             (Inl e, u') \<Rightarrow> (Inl e, u')
           | (Inr (tx_hash, r), u') \<Rightarrow> (Inr tx_hash, u')))"

text \<open>
  The dispatch in \<^verbatim>\<open>main\<close> (``Execute update''): \<open>prices_to_update\<close> is the dictionary's
  items in insertion order.
\<close>

definition execute_update :: "w3 \<Rightarrow> (string \<times> real) list \<Rightarrow> (py_error + string) \<times> w3" where
  "execute_update u prices_to_update =
     (if length prices_to_update = 1
      then (case prices_to_update of
              (provider, price) # _ \<Rightarrow> update_single_price u provider price
            | [] \<Rightarrow> (Inl ValueError, u))
      else batch_update_prices u prices_to_update)"

subsection \<open>\<^verbatim>\<open>H200OraclePriceUpdater\<close>\<close>

definition oracle_build_dynamic_fee :: "w3 \<Rightarrow> int \<times> int" where
  "oracle_build_dynamic_fee u =
     (let base_fee = gas_price u;
          max_priority = to_wei_gwei 1;
          max_fee = max (base_fee * 2) (max_priority * 2)
      in (max_fee, max_priority))"

definition oracle_send_transaction ::
  "w3 \<Rightarrow> contract_call \<Rightarrow> int \<Rightarrow> (py_error + string \<times> receipt) \<times> w3" where
  "oracle_send_transaction u func gas_limit =
     (case oracle_build_dynamic_fee u of (max_fee, max_priority) \<Rightarrow>
        (let tx = \<lparr>tx_func = func, tx_from = address u, tx_nonce = transaction_count u,
                   tx_gas = gas_limit, tx_maxFeePerGas = max_fee,
                   tx_maxPriorityFeePerGas = max_priority, tx_chainId = 11155111\<rparr>
         in case send_raw_transaction u tx of
              (Inl e, u') \<Rightarrow> (Inl e, u')
            | (Inr tx_hash, u') \<Rightarrow>
                (case wait_for_transaction_receipt u' tx_hash 180 of
                   Inl e \<Rightarrow> (Inl e, u')
                 | Inr r \<Rightarrow> (Inr (tx_hash, r), u'))))"

text \<open>
  \<^verbatim>\<open>update_price\<close>: the reads of the current price before and after (\<^verbatim>\<open>get_current_price\<close>
  catches every exception) only feed messages; the receipt's status is not read.
\<close>

definition update_price :: "w3 \<Rightarrow> nat \<Rightarrow> real \<Rightarrow> (py_error + string) \<times> w3" where
  "update_price u decimals price_usd =
     (let price_scaled = py_int (price_usd * 10 ^ decimals)
      in case oracle_send_transaction u (UpdatePrice H200_ASSET_ID price_scaled) 100000 of
           (Inl e, u') \<Rightarrow> (Inl e, u')
         | (Inr (tx_hash, r), u') \<Rightarrow> (Inr tx_hash, u'))"


subsection \<open>Observing what was submitted; sample nodes\<close>

text \<open>The contract calls submitted between two states of the node, oldest first.\<close>

definition submitted :: "w3 \<Rightarrow> w3 \<Rightarrow> contract_call list" where
  "submitted u u' = map tx_func (drop (length (mempool u)) (mempool u'))"

definition is_single_update :: "contract_call \<Rightarrow> bool" where
  "is_single_update c = (case c of UpdatePrice a v \<Rightarrow> True | BatchUpdatePrices ids vs \<Rightarrow> False)"

definition is_batch_of :: "nat \<Rightarrow> contract_call \<Rightarrow> bool" where
  "is_batch_of n c =
     (case c of UpdatePrice a v \<Rightarrow> False
      | BatchUpdatePrices ids vs \<Rightarrow> length ids = n \<and> length vs = n)"

text \<open>
  Three nodes that accept every transaction under the hash \<open>0xabc\<close>: one confirms it with
  status 1, one confirms it reverted (status 0), one never produces a receipt.
\<close>

definition confirming_node :: w3 where
  "confirming_node =
     \<lparr>gas_price = 3000000000, chain_id = 11155111, address = ''0xUpdater'',
      transaction_count = 7, send_raw_result = (\<lambda>tx. Inr ''0xabc''),
      receipt_within = (\<lambda>h t. Some \<lparr>status = 1, gasUsed = 45000\<rparr>), mempool = []\<rparr>"

definition reverting_node :: w3 where
  "reverting_node =
     \<lparr>gas_price = 3000000000, chain_id = 11155111, address = ''0xUpdater'',
      transaction_count = 7, send_raw_result = (\<lambda>tx. Inr ''0xabc''),
      receipt_within = (\<lambda>h t. Some \<lparr>status = 0, gasUsed = 45000\<rparr>), mempool = []\<rparr>"

definition stalled_node :: w3 where
  "stalled_node =
     \<lparr>gas_price = 3000000000, chain_id = 11155111, address = ''0xUpdater'',
      transaction_count = 7, send_raw_result = (\<lambda>tx. Inr ''0xabc''),
      receipt_within = (\<lambda>h t. None), mempool = []\<rparr>"


section \<open>The database publisher\<close>

text \<open>
  \<^verbatim>\<open>push_to_supabase.py\<close>.  The messages the script prints under a tag (\<^verbatim>\<open>[WARNING]\<close>,
  \<^verbatim>\<open>[ERROR]\<close>, \<^verbatim>\<open>[FAIL]\<close>, \<^verbatim>\<open>[OK]\<close>, \<^verbatim>\<open>[SUCCESS]\<close>) are the log; the other messages are
  modelled only where formatting them can raise.
\<close>

datatype log_line =
    WarnNotEnoughHistory nat
  | WarnValidationError py_error
  | OkValid
  | FailInvalid
  | ErrCredentials
  | ErrLibrary
  | ErrValidationFailed
  | ErrNoData
  | ErrPush py_error
  | Success nat
  | OkProviderPrices nat
  | WarnNoProviderData
  | WarnNoProviderRecords
  | WarnProviderPush py_error

text \<open>
  One entry of \<^verbatim>\<open>hyperscaler_details\<close>.  A numeric field is \<open>None\<close> when the key is absent
  (\<^verbatim>\<open>detail.get(key, 0)\<close> then gives 0), \<open>Some PyNone\<close> when it is null.
\<close>

record detail =
  provider :: "string option"
  original_price :: "pyval option"
  effective_price :: "pyval option"
  discount_rate :: "pyval option"
  relative_weight :: "pyval option"
  absolute_weight :: "pyval option"
  weighted_contribution :: "pyval option"

text \<open>The fields of \<^verbatim>\<open>h200_weighted_index.json\<close> that the publisher reads.\<close>

record index_data =
  timestamp :: "string option"
  final_index_price :: pyval
  hyperscaler_component :: pyval
  neocloud_component :: pyval
  hyperscaler_count :: "int option"
  neocloud_count :: "int option"
  hyperscaler_details :: "detail list"

text \<open>
  Rows of the two tables.  The \<^verbatim>\<open>metadata\<close> column (weights, details, base configuration,
  copied from the index data) is left out of the model.
\<close>

record index_row =
  row_id :: nat
  row_timestamp :: "string option"
  row_index_price :: pyval
  row_hyperscaler_component :: pyval
  row_neocloud_component :: pyval
  row_hyperscaler_count :: "int option"
  row_neocloud_count :: "int option"

record provider_row =
  pr_index_id :: nat
  pr_timestamp :: "string option"
  pr_provider_name :: "string option"
  pr_provider_type :: string
  pr_original_price :: real
  pr_effective_price :: real
  pr_discount_rate :: real
  pr_relative_weight :: real
  pr_absolute_weight :: real
  pr_weighted_contribution :: real

text \<open>How the store answers an insert: it stores the rows and returns them, it returns
  no data (and stores nothing), or the call raises.\<close>

datatype insert_mode = Stores | ReturnsNoData | InsertRaises

text \<open>
  The client together with the store behind it.  Both tables are kept in the order of
  \<^verbatim>\<open>created_at\<close>, oldest first; an insert appends.
\<close>

record supabase =
  h200_index_prices :: "index_row list"
  h200_provider_prices :: "provider_row list"
  select_raises :: bool
  index_insert :: insert_mode
  provider_insert :: insert_mode

text \<open>The process environment of \<^verbatim>\<open>push_to_supabase\<close>.\<close>

record environment =
  SUPABASE_URL :: "string option"
  SUPABASE_SERVICE_KEY :: "string option"
  supabase_installed :: bool
  create_client_raises :: bool

text \<open>
  \<^verbatim>\<open>table('h200_index_prices').select('index_price').order('created_at', desc=True).limit(2)\<close>:
  the prices of the two most recent rows, most recent first.
\<close>

definition select_last_two :: "supabase \<Rightarrow> py_error + pyval list" where
  "select_last_two sb =
     (if select_raises sb then Inl APIError
      else Inr (map row_index_price (take 2 (rev (h200_index_prices sb)))))"

definition next_id :: "index_row list \<Rightarrow> nat" where
  "next_id rows = Suc (fold max (map row_id rows) 0)"

definition insert_index ::
  "supabase \<Rightarrow> index_row \<Rightarrow> (py_error + index_row list) \<times> supabase" where
  "insert_index sb insert_data =
     (case index_insert sb of
        InsertRaises \<Rightarrow> (Inl APIError, sb)
      | ReturnsNoData \<Rightarrow> (Inr [], sb)
      | Stores \<Rightarrow>
          (let r = insert_data\<lparr>row_id := next_id (h200_index_prices sb)\<rparr>
           in (Inr [r], sb\<lparr>h200_index_prices := h200_index_prices sb @ [r]\<rparr>)))"

definition insert_provider_prices ::
  "supabase \<Rightarrow> provider_row list \<Rightarrow> (py_error + provider_row list) \<times> supabase" where
  "insert_provider_prices sb records =
     (case provider_insert sb of
        InsertRaises \<Rightarrow> (Inl APIError, sb)
      | ReturnsNoData \<Rightarrow> (Inr [], sb)
      | Stores \<Rightarrow>
          (Inr records, sb\<lparr>h200_provider_prices := h200_provider_prices sb @ records\<rparr>))"

text \<open>\<^verbatim>\<open>float(v)\<close> and the format \<^verbatim>\<open>{v:.2f}\<close> raise \<^verbatim>\<open>TypeError\<close> on \<^verbatim>\<open>None\<close>.\<close>

definition py_float :: "pyval \<Rightarrow> py_error + real" where
  "py_float v = (case v of PyNone \<Rightarrow> Inl TypeError | PyFloat x \<Rightarrow> Inr x)"

definition py_format_f :: "pyval \<Rightarrow> py_error + unit" where
  "py_format_f v = (case v of PyNone \<Rightarrow> Inl TypeError | PyFloat x \<Rightarrow> Inr ())"

text \<open>The list comprehension \<^verbatim>\<open>[float(record['index_price']) for record in response.data]\<close>.\<close>

fun floats_of :: "pyval list \<Rightarrow> py_error + real list" where
  "floats_of [] = Inr []"
| "floats_of (v # vs) =
     (case py_float v of
        Inl e \<Rightarrow> Inl e
      | Inr x \<Rightarrow> (case floats_of vs of Inl e \<Rightarrow> Inl e | Inr xs \<Rightarrow> Inr (x # xs)))"

text \<open>\<^verbatim>\<open>round(x, n)\<close>: to the nearest multiple of \<open>10 ^ -n\<close>, a tie to the even one.\<close>

definition py_round :: "real \<Rightarrow> nat \<Rightarrow> real" where
  "py_round x n =
     (let y = x * 10 ^ n; f = \<lfloor>y\<rfloor>; d = y - of_int f
      in of_int (if d < 1 / 2 then f else if 1 / 2 < d then f + 1
                 else if even f then f else f + 1) / 10 ^ n)"

subsection \<open>\<^verbatim>\<open>validate_price\<close>\<close>

text \<open>
  The body of the \<^verbatim>\<open>try\<close> block.  The deviation percentage, computed for the message in
  both branches after \<open>is_valid\<close>, divides by the average.
\<close>

definition validate_price_try ::
  "supabase \<Rightarrow> pyval \<Rightarrow> real \<Rightarrow> py_error + bool \<times> log_line list" where
  "validate_price_try sb new_price tolerance =
     (case select_last_two sb of
        Inl e \<Rightarrow> Inl e
      | Inr data \<Rightarrow>
          if length data < 2 then Inr (True, [WarnNotEnoughHistory (length data)])
          else
            (case floats_of data of
               Inl e \<Rightarrow> Inl e
             | Inr last_prices \<Rightarrow>
                 (let avg_price = sum_list last_prices / real (length last_prices);
                      lower_bound = avg_price * (1 - tolerance);
                      upper_bound = avg_price * (1 + tolerance)
                  in case new_price of
                       PyNone \<Rightarrow> Inl TypeError
                     | PyFloat p \<Rightarrow>
                         (let is_valid = (lower_bound \<le> p \<and> p \<le> upper_bound)
                          in if avg_price = 0 then Inl ZeroDivisionError
                             else Inr (is_valid, [if is_valid then OkValid else FailInvalid])))))"

definition validate_price :: "supabase \<Rightarrow> pyval \<Rightarrow> real \<Rightarrow> bool \<times> log_line list" where
  "validate_price sb new_price tolerance =
     (case validate_price_try sb new_price tolerance of
        Inl e \<Rightarrow> (True, [WarnValidationError e])
      | Inr r \<Rightarrow> r)"

subsection \<open>\<^verbatim>\<open>push_hyperscaler_prices\<close>\<close>

text \<open>\<^verbatim>\<open>round(detail.get(key, 0), 4)\<close>.\<close>

definition round_field :: "pyval option \<Rightarrow> py_error + real" where
  "round_field v =
     (case v of
        None \<Rightarrow> Inr 0
      | Some PyNone \<Rightarrow> Inl TypeError
      | Some (PyFloat x) \<Rightarrow> Inr (py_round x 4))"

definition provider_record :: "nat \<Rightarrow> string option \<Rightarrow> detail \<Rightarrow> py_error + provider_row" where
  "provider_record index_id ts d =
     (case round_field (original_price d) of Inl e \<Rightarrow> Inl e | Inr op \<Rightarrow>
      case round_field (effective_price d) of Inl e \<Rightarrow> Inl e | Inr ep \<Rightarrow>
      case round_field (discount_rate d) of Inl e \<Rightarrow> Inl e | Inr dr \<Rightarrow>
      case round_field (relative_weight d) of Inl e \<Rightarrow> Inl e | Inr rw \<Rightarrow>
      case round_field (absolute_weight d) of Inl e \<Rightarrow> Inl e | Inr aw \<Rightarrow>
      case round_field (weighted_contribution d) of Inl e \<Rightarrow> Inl e | Inr wc \<Rightarrow>
        Inr \<lparr>pr_index_id = index_id, pr_timestamp = ts, pr_provider_name = provider d,
             pr_provider_type = ''hyperscaler'', pr_original_price = op,
             pr_effective_price = ep, pr_discount_rate = dr, pr_relative_weight = rw,
             pr_absolute_weight = aw, pr_weighted_contribution = wc\<rparr>)"

text \<open>The loop over \<^verbatim>\<open>hyperscaler_details\<close>, appending to \<^verbatim>\<open>provider_records\<close>.\<close>

fun provider_records ::
  "nat \<Rightarrow> string option \<Rightarrow> detail list \<Rightarrow> py_error + provider_row list" where
  "provider_records index_id ts [] = Inr []"
| "provider_records index_id ts (d # ds) =
     (case provider_record index_id ts d of
        Inl e \<Rightarrow> Inl e
      | Inr r \<Rightarrow>
          (case provider_records index_id ts ds of Inl e \<Rightarrow> Inl e | Inr rs \<Rightarrow> Inr (r # rs)))"

definition push_hyperscaler_prices ::
  "supabase \<Rightarrow> index_data \<Rightarrow> nat \<Rightarrow> bool \<times> supabase \<times> log_line list" where
  "push_hyperscaler_prices sb data index_id =
     (case provider_records index_id (timestamp data) (hyperscaler_details data) of
        Inl e \<Rightarrow> (False, sb, [WarnProviderPush e])
      | Inr [] \<Rightarrow> (False, sb, [WarnNoProviderRecords])
      | Inr records \<Rightarrow>
          (case insert_provider_prices sb records of
             (Inl e, sb') \<Rightarrow> (False, sb', [WarnProviderPush e])
           | (Inr [], sb') \<Rightarrow> (False, sb', [WarnNoProviderData])
           | (Inr returned, sb') \<Rightarrow> (True, sb', [OkProviderPrices (length returned)])))"

subsection \<open>\<^verbatim>\<open>push_to_supabase\<close>\<close>

text \<open>
  The body of the second \<^verbatim>\<open>try\<close> block.  The three prices are formatted for the progress
  message before the insert.  The state and the log reached when an exception is raised are
  kept.
\<close>

definition push_to_supabase_try ::
  "environment \<Rightarrow> supabase \<Rightarrow> index_data \<Rightarrow> (py_error + bool) \<times> supabase \<times> log_line list" where
  "push_to_supabase_try env sb data =
     (if create_client_raises env then (Inl ClientError, sb, [])
      else
        (let new_price = final_index_price data
         in case validate_price sb new_price 0.25 of (valid, vlog) \<Rightarrow>
            if \<not> valid then (Inr False, sb, vlog @ [ErrValidationFailed])
            else
              (let insert_data =
                     \<lparr>row_id = 0, row_timestamp = timestamp data, row_index_price = new_price,
                      row_hyperscaler_component = hyperscaler_component data,
                      row_neocloud_component = neocloud_component data,
                      row_hyperscaler_count = hyperscaler_count data,
                      row_neocloud_count = neocloud_count data\<rparr>
               in case py_format_f (row_index_price insert_data) of
                    Inl e \<Rightarrow> (Inl e, sb, vlog)
                  | Inr _ \<Rightarrow>
                 (case py_format_f (row_hyperscaler_component insert_data) of
                    Inl e \<Rightarrow> (Inl e, sb, vlog)
                  | Inr _ \<Rightarrow>
                 (case py_format_f (row_neocloud_component insert_data) of
                    Inl e \<Rightarrow> (Inl e, sb, vlog)
                  | Inr _ \<Rightarrow>
                 (case insert_index sb insert_data of
                    (Inl e, sb1) \<Rightarrow> (Inl e, sb1, vlog)
                  | (Inr [], sb1) \<Rightarrow> (Inr False, sb1, vlog @ [ErrNoData])
                  | (Inr (row # _), sb1) \<Rightarrow>
                      (let index_id = row_id row
                       in case push_hyperscaler_prices sb1 data index_id of
                            (pushed, sb2, plog) \<Rightarrow>
                              (Inr True, sb2, vlog @ [Success index_id] @ plog))))))))"

definition push_to_supabase ::
  "environment \<Rightarrow> supabase \<Rightarrow> index_data \<Rightarrow> bool \<times> supabase \<times> log_line list" where
  "push_to_supabase env sb data =
     (if SUPABASE_URL env \<in> {None, Some []} \<or> SUPABASE_SERVICE_KEY env \<in> {None, Some []}
      then (False, sb, [ErrCredentials])
      else if \<not> supabase_installed env then (False, sb, [ErrLibrary])
      else
        (case push_to_supabase_try env sb data of
           (Inl e, sb', lg) \<Rightarrow> (False, sb', lg @ [ErrPush e])
         | (Inr ok, sb', lg) \<Rightarrow> (ok, sb', lg)))"

subsection \<open>Sample stores and index data\<close>

definition sample_row :: "nat \<Rightarrow> real \<Rightarrow> index_row" where
  "sample_row i p =
     \<lparr>row_id = i, row_timestamp = Some ''2025-01-01T00:00:00'', row_index_price = PyFloat p,
      row_hyperscaler_component = PyFloat 2, row_neocloud_component = PyFloat 2,
      row_hyperscaler_count = Some 5, row_neocloud_count = Some 7\<rparr>"

definition store_with :: "index_row list \<Rightarrow> supabase" where
  "store_with rows =
     \<lparr>h200_index_prices = rows, h200_provider_prices = [], select_raises = False,
      index_insert = Stores, provider_insert = Stores\<rparr>"

definition sample_env :: environment where
  "sample_env =
     \<lparr>SUPABASE_URL = Some ''https://project.supabase.co'', SUPABASE_SERVICE_KEY = Some ''key'',
      supabase_installed = True, create_client_raises = False\<rparr>"

definition sample_detail :: detail where
  "sample_detail =
     \<lparr>provider = Some ''AWS'', original_price = Some (PyFloat 4.5),
      effective_price = Some (PyFloat 2.65), discount_rate = Some (PyFloat 0.4111),
      relative_weight = Some (PyFloat 0.3), absolute_weight = Some (PyFloat 0.2),
      weighted_contribution = Some (PyFloat 0.53)\<rparr>"

definition sample_data :: "pyval \<Rightarrow> index_data" where
  "sample_data p =
     \<lparr>timestamp = Some ''2025-01-02T00:00:00'', final_index_price = p,
      hyperscaler_component = PyFloat 2.1, neocloud_component = PyFloat 2.4,
      hyperscaler_count = Some 5, neocloud_count = Some 7,
      hyperscaler_details = [sample_detail]\<rparr>"


subsection \<open>Reading the log and the prepared row\<close>

text \<open>The lines printed under \<^verbatim>\<open>[WARNING]\<close>.\<close>

definition is_warning :: "log_line \<Rightarrow> bool" where
  "is_warning l =
     (case l of
        WarnNotEnoughHistory n \<Rightarrow> True
      | WarnValidationError e \<Rightarrow> True
      | WarnNoProviderData \<Rightarrow> True
      | WarnNoProviderRecords \<Rightarrow> True
      | WarnProviderPush e \<Rightarrow> True
      | _ \<Rightarrow> False)"

text \<open>The row \<^verbatim>\<open>insert_data\<close> that \<^verbatim>\<open>push_to_supabase\<close> prepares; the store assigns the id.\<close>

definition insert_data_of :: "index_data \<Rightarrow> index_row" where
  "insert_data_of data =
     \<lparr>row_id = 0, row_timestamp = timestamp data, row_index_price = final_index_price data,
      row_hyperscaler_component = hyperscaler_component data,
      row_neocloud_component = neocloud_component data,
      row_hyperscaler_count = hyperscaler_count data,
      row_neocloud_count = neocloud_count data\<rparr>"


section \<open>The scrapers\<close>

subsection \<open>Price strings\<close>

definition is_digit :: "char \<Rightarrow> bool" where
  "is_digit c = (48 \<le> (of_char c :: nat) \<and> (of_char c :: nat) \<le> 57)"

text \<open>The character class \<^verbatim>\<open>[0-9.]\<close>.\<close>

definition is_price_char :: "char \<Rightarrow> bool" where
  "is_price_char c = (is_digit c \<or> c = CHR ''.'')"

text \<open>
  \<^verbatim>\<open>re.search(r'\$?([0-9.]+)', s)\<close> and its group 1: the leftmost match starts at the first
  character of the class (or at a dollar sign right before it), and the group is the
  longest run of the class from there.  \<open>None\<close> when the string has no such character.
\<close>

definition search_price :: "string \<Rightarrow> string option" where
  "search_price s =
     (case dropWhile (\<lambda>c. \<not> is_price_char c) s of
        [] \<Rightarrow> None
      | c # cs \<Rightarrow> Some (takeWhile is_price_char (c # cs)))"

definition digits_value :: "string \<Rightarrow> nat" where
  "digits_value ds = foldl (\<lambda>n c. 10 * n + (of_char c - 48)) 0 ds"

text \<open>
  \<^verbatim>\<open>float(g)\<close> for a string \<open>g\<close> of digits and dots: digits, at most one dot, and at least
  one digit; anything else raises \<^verbatim>\<open>ValueError\<close>.
\<close>

definition float_of_string :: "string \<Rightarrow> py_error + real" where
  "float_of_string g =
     (let ip = takeWhile is_digit g; rest = dropWhile is_digit g
      in case rest of
           [] \<Rightarrow> if ip = [] then Inl ValueError else Inr (real (digits_value ip))
         | c # fp \<Rightarrow>
             if c = CHR ''.'' \<and> list_all is_digit fp \<and> (ip \<noteq> [] \<or> fp \<noteq> [])
             then Inr (real (digits_value ip) + real (digits_value fp) / 10 ^ length fp)
             else Inl ValueError)"

text \<open>\<^verbatim>\<open>sub in s\<close> on strings.\<close>

fun starts_with :: "string \<Rightarrow> string \<Rightarrow> bool" where
  "starts_with [] s = True"
| "starts_with (a # as) [] = False"
| "starts_with (a # as) (c # cs) = (a = c \<and> starts_with as cs)"

fun contains :: "string \<Rightarrow> string \<Rightarrow> bool" where
  "contains sub [] = (sub = [])"
| "contains sub (c # cs) = (starts_with sub (c # cs) \<or> contains sub cs)"

subsection \<open>\<^verbatim>\<open>_validate_prices\<close> of the Hyperbolic and the GCP scraper\<close>

text \<open>
  The two functions are the same text up to the two numbers of the range test.  The
  argument is the dictionary's items, variant name and price string; the loop returns at
  the first price in range and skips a variant whose name contains \<^verbatim>\<open>Error\<close>, a string
  without a number, and a number that does not parse.
\<close>

fun validate_loop :: "real \<Rightarrow> real \<Rightarrow> (string \<times> string) list \<Rightarrow> bool" where
  "validate_loop lo hi [] = False"
| "validate_loop lo hi ((variant, price_str) # rest) =
     (if contains ''Error'' variant then validate_loop lo hi rest
      else
        (case search_price price_str of
           None \<Rightarrow> validate_loop lo hi rest
         | Some g \<Rightarrow>
             (case float_of_string g of
                Inl e \<Rightarrow> validate_loop lo hi rest
              | Inr price \<Rightarrow>
                  if lo < price \<and> price < hi then True else validate_loop lo hi rest)))"

definition hyperbolic_validate_prices :: "(string \<times> string) list \<Rightarrow> bool" where
  "hyperbolic_validate_prices prices =
     (if prices = [] then False else validate_loop 1.0 10.0 prices)"

definition gcp_validate_prices :: "(string \<times> string) list \<Rightarrow> bool" where
  "gcp_validate_prices prices =
     (if prices = [] then False else validate_loop 5 25 prices)"

text \<open>
  The method loop of the Hyperbolic scraper's \<^verbatim>\<open>get_h200_prices\<close>: each method has returned
  a dictionary or raised; the first non-empty result that validates is the scraper's
  result, and the result is empty when there is none.
\<close>

fun hyperbolic_get_h200_prices ::
  "(py_error + (string \<times> string) list) list \<Rightarrow> (string \<times> string) list" where
  "hyperbolic_get_h200_prices [] = []"
| "hyperbolic_get_h200_prices (Inl e # methods) = hyperbolic_get_h200_prices methods"
| "hyperbolic_get_h200_prices (Inr prices # methods) =
     (if prices \<noteq> [] \<and> hyperbolic_validate_prices prices then prices
      else hyperbolic_get_h200_prices methods)"

text \<open>The price a string denotes, when it denotes one.\<close>

definition price_of :: "string \<Rightarrow> real option" where
  "price_of s =
     (case search_price s of
        None \<Rightarrow> None
      | Some g \<Rightarrow> (case float_of_string g of Inl e \<Rightarrow> None | Inr p \<Rightarrow> Some p))"

text \<open>The plausibility predicate as the specification words it: a closed interval.\<close>

definition plausible_closed :: "real \<Rightarrow> real \<Rightarrow> real \<Rightarrow> bool" where
  "plausible_closed lo hi v = (lo \<le> v \<and> v \<le> hi)"

subsection \<open>The AceCloud scraper\<close>

text \<open>
  An H200 row of the pricing table as \<^verbatim>\<open>_extract_from_table\<close> reads it: the GPU count of
  column 1 (1 when the cell has no number) and the monthly price of column 4, \<open>None\<close> when
  the cleaned text is not a number (the row is skipped).  Dividing by a GPU count of 0
  raises out of the function.
\<close>

record table_row =
  gpu_count :: nat
  monthly_price :: "real option"

fun extract_from_table :: "table_row list \<Rightarrow> py_error + real list" where
  "extract_from_table [] = Inr []"
| "extract_from_table (r # rows) =
     (case monthly_price r of
        None \<Rightarrow> extract_from_table rows
      | Some m \<Rightarrow>
          if gpu_count r = 0 then Inl ZeroDivisionError
          else (case extract_from_table rows of
                  Inl e \<Rightarrow> Inl e
                | Inr prices \<Rightarrow> Inr (m / real (gpu_count r) # prices)))"

text \<open>The method loop: the first method that returns a non-empty list of prices wins.\<close>

fun first_prices :: "(py_error + real list) list \<Rightarrow> real list" where
  "first_prices [] = []"
| "first_prices (Inl e # methods) = first_prices methods"
| "first_prices (Inr prices # methods) =
     (if prices \<noteq> [] then prices else first_prices methods)"

record acecloud_result =
  display_usd_hourly :: real
  usd_hourly :: real
  inr_monthly :: real
  exchange_rate :: real
  all_prices_inr :: "real list"

text \<open>
  \<^verbatim>\<open>get_h200_prices\<close>, given the rate that \<^verbatim>\<open>get_inr_to_usd_rate\<close> returned and what each
  method returned.  \<open>None\<close> is the empty dictionary.  \<open>display_usd_hourly\<close> is the number
  that \<^verbatim>\<open>f"${avg_usd_hourly:.2f}/hr"\<close> shows; \<open>usd_hourly\<close> is the value before formatting.
\<close>

definition acecloud_get_h200_prices ::
  "real option \<Rightarrow> (py_error + real list) list \<Rightarrow> acecloud_result option" where
  "acecloud_get_h200_prices inr_to_usd methods =
     (case inr_to_usd of
        None \<Rightarrow> None
      | Some rate \<Rightarrow>
          if rate = 0 then None
          else
            (let all_prices = first_prices methods
             in if all_prices = [] then None
                else
                  (let avg_inr_monthly = sum_list all_prices / real (length all_prices);
                       hours_per_month = 730;
                       avg_inr_hourly = avg_inr_monthly / hours_per_month;
                       avg_usd_hourly = avg_inr_hourly * rate
                   in Some \<lparr>display_usd_hourly = py_round avg_usd_hourly 2,
                            usd_hourly = avg_usd_hourly, inr_monthly = avg_inr_monthly,
                            exchange_rate = rate, all_prices_inr = all_prices\<rparr>)))"

text \<open>The first method, \<^verbatim>\<open>_try_pricing_page\<close>, on a page whose table has the given H200 rows:
  an exception of the extraction is caught and the prices found are empty.\<close>

definition try_pricing_page :: "table_row list \<Rightarrow> py_error + real list" where
  "try_pricing_page rows =
     (case extract_from_table rows of Inl e \<Rightarrow> Inr [] | Inr prices \<Rightarrow> Inr prices)"


subsection \<open>What the methods of the two scrapers return\<close>

text \<open>
  Every extraction method of the Hyperbolic scraper stores its price under the one key
  \<^verbatim>\<open>H200 (Hyperbolic)\<close>, every method of the GCP scraper under \<^verbatim>\<open>A3-Ultra (Google Cloud)\<close>:
  a method's result is empty or holds that one key.
\<close>

definition hyperbolic_variant :: string where
  "hyperbolic_variant = ''H200 (Hyperbolic)''"

definition gcp_variant :: string where
  "gcp_variant = ''A3-Ultra (Google Cloud)''"

definition one_key_result :: "string \<Rightarrow> py_error + (string \<times> string) list \<Rightarrow> bool" where
  "one_key_result k r =
     (case r of
        Inl e \<Rightarrow> True
      | Inr prices \<Rightarrow>
          (case prices of [] \<Rightarrow> True | (variant, s) # rest \<Rightarrow> variant = k \<and> rest = []))"

subsection \<open>\<^verbatim>\<open>get_h200_prices\<close> of the GCP scraper\<close>

text \<open>The method loop, as in the Hyperbolic scraper, with the GCP range test.\<close>

fun gcp_first_valid ::
  "(py_error + (string \<times> string) list) list \<Rightarrow> (string \<times> string) list" where
  "gcp_first_valid [] = []"
| "gcp_first_valid (Inl e # methods) = gcp_first_valid methods"
| "gcp_first_valid (Inr prices # methods) =
     (if prices \<noteq> [] \<and> gcp_validate_prices prices then prices
      else gcp_first_valid methods)"

text \<open>
  \<^verbatim>\<open>re.search(r'\$([0-9.]+)', s)\<close> and its group 1: here the dollar sign is required, so the
  match starts at the first dollar sign that a character of the class follows.
\<close>

fun search_dollar_price :: "string \<Rightarrow> string option" where
  "search_dollar_price [] = None"
| "search_dollar_price (c # cs) =
     (if c = CHR ''$'' \<and> (case cs of [] \<Rightarrow> False | d # ds \<Rightarrow> is_price_char d)
      then Some (takeWhile is_price_char cs)
      else search_dollar_price cs)"

text \<open>The loop of \<^verbatim>\<open>_normalize_prices\<close>, collecting \<^verbatim>\<open>per_gpu_prices\<close>.\<close>

fun per_gpu_prices :: "(string \<times> string) list \<Rightarrow> real list" where
  "per_gpu_prices [] = []"
| "per_gpu_prices ((variant, price_str) # rest) =
     (if contains ''Error'' variant then per_gpu_prices rest
      else
        (case search_dollar_price price_str of
           None \<Rightarrow> per_gpu_prices rest
         | Some g \<Rightarrow>
             (case float_of_string g of
                Inl e \<Rightarrow> per_gpu_prices rest
              | Inr price \<Rightarrow> price # per_gpu_prices rest)))"

text \<open>
  \<^verbatim>\<open>_normalize_prices\<close> returns the empty dictionary (\<open>None\<close>) or one entry under the key
  \<^verbatim>\<open>A3-Ultra (GCP)\<close>; the result is the number that \<^verbatim>\<open>f"${avg_per_gpu:.2f}/hr"\<close> shows.
\<close>

definition gcp_normalize_prices :: "(string \<times> string) list \<Rightarrow> real option" where
  "gcp_normalize_prices prices =
     (if prices = [] then None
      else
        (let ps = per_gpu_prices prices
         in if ps \<noteq> [] then Some (py_round (sum_list ps / real (length ps)) 2) else None))"

definition gcp_get_h200_prices ::
  "(py_error + (string \<times> string) list) list \<Rightarrow> real option" where
  "gcp_get_h200_prices methods =
     (let h200_prices = gcp_first_valid methods
      in if h200_prices = [] then None else gcp_normalize_prices h200_prices)"


section \<open>Properties of the on-chain publishers\<close>

text \<open>
  C7.  For every base fee the node reports, the priority fee is the fixed 1 gwei and the
  maximal total fee is twice the greater of the base fee and the priority fee, in both
  updaters.
\<close>

theorem build_dynamic_fee_twice_max:
  "build_dynamic_fee u = (2 * max (gas_price u) (to_wei_gwei 1), to_wei_gwei 1)
   \<and> oracle_build_dynamic_fee u = (2 * max (gas_price u) (to_wei_gwei 1), to_wei_gwei 1)
   \<and> to_wei_gwei 1 = 10 ^ 9"
  by (simp add: build_dynamic_fee_def oracle_build_dynamic_fee_def to_wei_gwei_def Let_def max_def)

subsection \<open>Single update or batch\<close>

lemma batch_collect_length:
  "batch_collect prices ids ps = Inr (ids', ps') \<Longrightarrow>
     length ids' = length ids + length prices \<and> length ps' = length ps + length prices"
  by (induction prices ids ps rule: batch_collect.induct) (auto split: option.splits)

lemma batch_collect_known:
  "\<forall>(p, x) \<in> set prices. map_of H200_PROVIDERS (upper p) \<noteq> None \<Longrightarrow>
   batch_collect prices ids ps =
     Inr (ids @ map (\<lambda>(p, x). asset_id (the (map_of H200_PROVIDERS (upper p)))) prices,
          ps @ map (\<lambda>(p, x). py_int (x * 10 ^ PRICE_DECIMALS)) prices)"
  by (induction prices ids ps rule: batch_collect.induct) (auto split: option.splits)

lemma send_transaction_submitted:
  "submitted u (snd (send_transaction u func gas)) =
     (if isl (send_raw_result u
           \<lparr>tx_func = func, tx_from = address u, tx_nonce = transaction_count u,
            tx_gas = gas, tx_maxFeePerGas = fst (build_dynamic_fee u),
            tx_maxPriorityFeePerGas = snd (build_dynamic_fee u), tx_chainId = chain_id u\<rparr>)
      then [] else [func])"
  by (auto simp: submitted_def send_transaction_def send_raw_transaction_def Let_def
      split: sum.splits prod.splits)

lemma send_transaction_submitted_cases:
  "submitted u (snd (send_transaction u func gas)) = [] \<or>
   submitted u (snd (send_transaction u func gas)) = [func]"
  by (simp add: send_transaction_submitted)

lemma submitted_refl: "submitted u u = []"
  by (simp add: submitted_def)

lemma update_single_price_submitted_eq:
  "submitted u (snd (update_single_price u p x)) =
     (case map_of H200_PROVIDERS (upper p) of
        None \<Rightarrow> []
      | Some info \<Rightarrow>
          submitted u (snd (send_transaction u
            (UpdatePrice (asset_id info) (py_int (x * 10 ^ PRICE_DECIMALS))) 100000)))"
  by (auto simp: update_single_price_def Let_def submitted_refl
      split: option.splits sum.splits prod.splits)

lemma batch_update_prices_submitted_eq:
  "submitted u (snd (batch_update_prices u prices)) =
     (case batch_collect prices [] [] of
        Inl e \<Rightarrow> []
      | Inr (ids, vs) \<Rightarrow>
          submitted u (snd (send_transaction u (BatchUpdatePrices ids vs)
            (50000 + int (length ids) * 30000))))"
  by (auto simp: batch_update_prices_def Let_def submitted_refl
      split: option.splits sum.splits prod.splits)

lemma update_single_price_submitted:
  "list_all is_single_update (submitted u (snd (update_single_price u p x)))"
proof (cases "map_of H200_PROVIDERS (upper p)")
  case None
  then show ?thesis by (simp add: update_single_price_submitted_eq)
next
  case (Some info)
  then show ?thesis
    using send_transaction_submitted_cases
      [of u "UpdatePrice (asset_id info) (py_int (x * 10 ^ PRICE_DECIMALS))" 100000]
    by (auto simp: update_single_price_submitted_eq is_single_update_def)
qed

lemma batch_update_prices_submitted:
  "list_all (is_batch_of (length prices)) (submitted u (snd (batch_update_prices u prices)))"
proof (cases "batch_collect prices [] []")
  case (Inl e)
  then show ?thesis by (simp add: batch_update_prices_submitted_eq)
next
  case (Inr r)
  obtain ids vs where r: "r = (ids, vs)" by (cases r)
  from Inr r have len: "length ids = length prices \<and> length vs = length prices"
    using batch_collect_length[of prices "[]" "[]" ids vs] by simp
  show ?thesis
    using Inr r len
      send_transaction_submitted_cases
        [of u "BatchUpdatePrices ids vs" "50000 + int (length ids) * 30000"]
    by (auto simp: batch_update_prices_submitted_eq is_batch_of_def)
qed

text \<open>
  C6.  For every non-empty dictionary of provider/price pairs, \<^verbatim>\<open>main\<close> takes
  \<^verbatim>\<open>update_single_price\<close> when there is exactly one pair and \<^verbatim>\<open>batch_update_prices\<close> when
  there are two or more.  Whatever the single path submits is an \<^verbatim>\<open>updatePrice\<close> call;
  whatever the batched path submits is a \<^verbatim>\<open>batchUpdatePrices\<close> call whose two arrays both
  have one entry per input pair.  When every provider is a key of \<open>H200_PROVIDERS\<close> and the
  node accepts the transaction, exactly that one call is submitted, carrying the providers'
  asset identifiers and the prices scaled by \<open>10 ^ 18\<close>, in the order of the input.
\<close>

theorem execute_update_single_or_batch:
  assumes nonempty: "prices \<noteq> []"
  shows "(length prices = 1 \<longrightarrow>
            (\<exists>provider price. prices = [(provider, price)]
               \<and> execute_update u prices = update_single_price u provider price)
            \<and> list_all is_single_update (submitted u (snd (execute_update u prices))))
       \<and> (2 \<le> length prices \<longrightarrow>
            execute_update u prices = batch_update_prices u prices
            \<and> list_all (is_batch_of (length prices)) (submitted u (snd (execute_update u prices))))
       \<and> ((\<forall>(p, x) \<in> set prices. map_of H200_PROVIDERS (upper p) \<noteq> None)
            \<and> (\<forall>tx. \<not> isl (send_raw_result u tx)) \<longrightarrow>
            submitted u (snd (execute_update u prices)) =
              [if length prices = 1
               then UpdatePrice (asset_id (the (map_of H200_PROVIDERS (upper (fst (hd prices))))))
                      (py_int (snd (hd prices) * 10 ^ PRICE_DECIMALS))
               else BatchUpdatePrices
                      (map (\<lambda>(p, x). asset_id (the (map_of H200_PROVIDERS (upper p)))) prices)
                      (map (\<lambda>(p, x). py_int (x * 10 ^ PRICE_DECIMALS)) prices)])"
proof (intro conjI impI)
  assume one: "length prices = 1"
  then obtain provider price where p: "prices = [(provider, price)]"
    by (cases prices) auto
  then show "\<exists>provider price. prices = [(provider, price)]
      \<and> execute_update u prices = update_single_price u provider price"
    by (simp add: execute_update_def)
  from p show "list_all is_single_update (submitted u (snd (execute_update u prices)))"
    using update_single_price_submitted[of u provider price] by (simp add: execute_update_def)
next
  assume two: "2 \<le> length prices"
  then show "execute_update u prices = batch_update_prices u prices"
    by (simp add: execute_update_def)
  from two show "list_all (is_batch_of (length prices)) (submitted u (snd (execute_update u prices)))"
    using batch_update_prices_submitted[of prices u] by (simp add: execute_update_def)
next
  assume h: "(\<forall>(p, x) \<in> set prices. map_of H200_PROVIDERS (upper p) \<noteq> None)
            \<and> (\<forall>tx. \<not> isl (send_raw_result u tx))"
  show "submitted u (snd (execute_update u prices)) =
              [if length prices = 1
               then UpdatePrice (asset_id (the (map_of H200_PROVIDERS (upper (fst (hd prices))))))
                      (py_int (snd (hd prices) * 10 ^ PRICE_DECIMALS))
               else BatchUpdatePrices
                      (map (\<lambda>(p, x). asset_id (the (map_of H200_PROVIDERS (upper p)))) prices)
                      (map (\<lambda>(p, x). py_int (x * 10 ^ PRICE_DECIMALS)) prices)]"
  proof (cases "length prices = 1")
    case True
    then obtain provider price where p: "prices = [(provider, price)]"
      by (cases prices) auto
    with h obtain info where "map_of H200_PROVIDERS (upper provider) = Some info" by auto
    with p h show ?thesis
      by (simp add: execute_update_def update_single_price_submitted_eq send_transaction_submitted)
  next
    case False
    from h have "batch_collect prices [] [] =
       Inr (map (\<lambda>(p, x). asset_id (the (map_of H200_PROVIDERS (upper p)))) prices,
            map (\<lambda>(p, x). py_int (x * 10 ^ PRICE_DECIMALS)) prices)"
      using batch_collect_known[of prices "[]" "[]"] by simp
    with False h show ?thesis
      by (simp add: execute_update_def batch_update_prices_submitted_eq send_transaction_submitted)
  qed
qed

theorem execute_update_single_or_batch_witness:
  "submitted confirming_node (snd (execute_update confirming_node [(''AWS'', 2.75), (''GCP'', 4.6)])) =
     [BatchUpdatePrices
        [''0xb377854a672b5274c99b24e7fe27d9661c60c8b697ca4f974208162655716b3e'',
         ''0x0ba2d87db04ca970c41ab4334516ce12e74356d71ee96e228fb1ba5d519aaaf4'']
        [2750000000000000000, 4600000000000000000]]
   \<and> list_all is_single_update
        (submitted confirming_node (snd (execute_update confirming_node [(''aws'', 2.75)])))
   \<and> submitted confirming_node (snd (execute_update confirming_node [(''aws'', 2.75)])) =
        [UpdatePrice ''0xb377854a672b5274c99b24e7fe27d9661c60c8b697ca4f974208162655716b3e''
           2750000000000000000]"
proof -
  have ne2: "[(''AWS'', 2.75 :: real), (''GCP'', 4.6)] \<noteq> []" by simp
  have ne1: "[(''aws'', 2.75 :: real)] \<noteq> []" by simp
  have acc: "\<forall>tx. \<not> isl (send_raw_result confirming_node tx)"
    by (simp add: confirming_node_def)
  have k2: "\<forall>(p, x) \<in> set [(''AWS'', 2.75 :: real), (''GCP'', 4.6)].
              map_of H200_PROVIDERS (upper p) \<noteq> None"
    by code_simp
  have k1: "\<forall>(p, x) \<in> set [(''aws'', 2.75 :: real)]. map_of H200_PROVIDERS (upper p) \<noteq> None"
    by code_simp
  have a1: "asset_id (the (map_of H200_PROVIDERS (upper ''AWS''))) =
      ''0xb377854a672b5274c99b24e7fe27d9661c60c8b697ca4f974208162655716b3e''"
    by code_simp
  have a1': "asset_id (the (map_of H200_PROVIDERS (upper ''aws''))) =
      ''0xb377854a672b5274c99b24e7fe27d9661c60c8b697ca4f974208162655716b3e''"
    by code_simp
  have a2: "asset_id (the (map_of H200_PROVIDERS (upper ''GCP''))) =
      ''0x0ba2d87db04ca970c41ab4334516ce12e74356d71ee96e228fb1ba5d519aaaf4''"
    by code_simp
  have e2: "submitted confirming_node
      (snd (execute_update confirming_node [(''AWS'', 2.75), (''GCP'', 4.6)])) =
     [BatchUpdatePrices
        [''0xb377854a672b5274c99b24e7fe27d9661c60c8b697ca4f974208162655716b3e'',
         ''0x0ba2d87db04ca970c41ab4334516ce12e74356d71ee96e228fb1ba5d519aaaf4'']
        [2750000000000000000, 4600000000000000000]]"
    using execute_update_single_or_batch
      [OF ne2, of confirming_node, THEN conjunct2, THEN conjunct2, THEN mp, OF conjI [OF k2 acc]]
    by (simp add: a1 a2 py_int_def PRICE_DECIMALS_def)
  have e1: "submitted confirming_node (snd (execute_update confirming_node [(''aws'', 2.75)])) =
        [UpdatePrice ''0xb377854a672b5274c99b24e7fe27d9661c60c8b697ca4f974208162655716b3e''
           2750000000000000000]"
    using execute_update_single_or_batch
      [OF ne1, of confirming_node, THEN conjunct2, THEN conjunct2, THEN mp, OF conjI [OF k1 acc]]
    by (simp add: a1' py_int_def PRICE_DECIMALS_def)
  show ?thesis
    using e1 e2 by (simp add: is_single_update_def)
qed

subsection \<open>Confirmation, timeout and receipt status\<close>

lemma send_transaction_accepted:
  "\<forall>tx. send_raw_result u tx = Inr h \<Longrightarrow>
   fst (send_transaction u func gas) =
     (case receipt_within u h 180 of None \<Rightarrow> Inl TimeExhausted | Some r \<Rightarrow> Inr (h, r))"
  by (simp add: send_transaction_def send_raw_transaction_def wait_for_transaction_receipt_def
      Let_def split: prod.splits option.splits)

lemma oracle_send_transaction_accepted:
  "\<forall>tx. send_raw_result u tx = Inr h \<Longrightarrow>
   fst (oracle_send_transaction u func gas) =
     (case receipt_within u h 180 of None \<Rightarrow> Inl TimeExhausted | Some r \<Rightarrow> Inr (h, r))"
  by (simp add: oracle_send_transaction_def send_raw_transaction_def
      wait_for_transaction_receipt_def Let_def split: prod.splits option.splits)

lemma update_price_fst:
  "fst (update_price u d x) =
     (case fst (oracle_send_transaction u (UpdatePrice H200_ASSET_ID (py_int (x * 10 ^ d))) 100000) of
        Inl e \<Rightarrow> Inl e | Inr (tx_hash, r) \<Rightarrow> Inr tx_hash)"
  by (simp add: update_price_def Let_def split: prod.splits sum.splits)

lemma update_single_price_fst:
  "map_of H200_PROVIDERS (upper p) = Some info \<Longrightarrow>
   fst (update_single_price u p x) =
     (case fst (send_transaction u (UpdatePrice (asset_id info) (py_int (x * 10 ^ PRICE_DECIMALS))) 100000) of
        Inl e \<Rightarrow> Inl e | Inr (tx_hash, r) \<Rightarrow> Inr tx_hash)"
  by (simp add: update_single_price_def Let_def split: prod.splits sum.splits)

lemma batch_update_prices_fst:
  "batch_collect prices [] [] = Inr (ids, vs) \<Longrightarrow>
   fst (batch_update_prices u prices) =
     (case fst (send_transaction u (BatchUpdatePrices ids vs) (50000 + int (length ids) * 30000)) of
        Inl e \<Rightarrow> Inl e | Inr (tx_hash, r) \<Rightarrow> Inr tx_hash)"
  by (simp add: batch_update_prices_def Let_def split: prod.splits sum.splits)

text \<open>
  C4, as the code has it.  After a transaction is accepted by the node under hash \<open>h\<close>,
  each publisher waits for its receipt with a timeout of 180 seconds.  When no receipt
  arrives in that time, \<^verbatim>\<open>TimeExhausted\<close> is raised out of the publisher to its caller.
  When a receipt arrives, the publisher returns the transaction hash whatever the receipt's
  status is: \<^verbatim>\<open>update_price\<close> never reads the status, \<^verbatim>\<open>update_single_price\<close> and
  \<^verbatim>\<open>batch_update_prices\<close> only print it.
\<close>

theorem timeout_raises_status_not_read:
  assumes accepted: "\<forall>tx. send_raw_result u tx = Inr h"
  shows "(receipt_within u h 180 = None \<longrightarrow>
            fst (update_price u d x) = Inl TimeExhausted
          \<and> (map_of H200_PROVIDERS (upper p) \<noteq> None \<longrightarrow>
               fst (update_single_price u p x) = Inl TimeExhausted)
          \<and> ((\<forall>(q, y) \<in> set prices. map_of H200_PROVIDERS (upper q) \<noteq> None) \<longrightarrow>
               fst (batch_update_prices u prices) = Inl TimeExhausted))
       \<and> (\<forall>r. receipt_within u h 180 = Some r \<longrightarrow>
            fst (update_price u d x) = Inr h
          \<and> (map_of H200_PROVIDERS (upper p) \<noteq> None \<longrightarrow>
               fst (update_single_price u p x) = Inr h)
          \<and> ((\<forall>(q, y) \<in> set prices. map_of H200_PROVIDERS (upper q) \<noteq> None) \<longrightarrow>
               fst (batch_update_prices u prices) = Inr h))"
proof -
  have single: "map_of H200_PROVIDERS (upper p) \<noteq> None \<Longrightarrow>
      fst (update_single_price u p x) =
        (case receipt_within u h 180 of None \<Rightarrow> Inl TimeExhausted | Some r \<Rightarrow> Inr h)"
    using accepted
    by (auto simp: update_single_price_fst send_transaction_accepted split: option.splits)
  have batch: "(\<forall>(q, y) \<in> set prices. map_of H200_PROVIDERS (upper q) \<noteq> None) \<Longrightarrow>
      fst (batch_update_prices u prices) =
        (case receipt_within u h 180 of None \<Rightarrow> Inl TimeExhausted | Some r \<Rightarrow> Inr h)"
    using accepted batch_collect_known[of prices "[]" "[]"]
    by (auto simp: batch_update_prices_fst send_transaction_accepted split: option.splits)
  have upd: "fst (update_price u d x) =
        (case receipt_within u h 180 of None \<Rightarrow> Inl TimeExhausted | Some r \<Rightarrow> Inr h)"
    using accepted
    by (auto simp: update_price_fst oracle_send_transaction_accepted split: option.splits)
  show ?thesis
    using single batch upd by simp
qed

theorem timeout_raises_status_not_read_witness:
  "fst (update_price stalled_node 18 3.53) = Inl TimeExhausted
   \<and> fst (update_single_price stalled_node ''AWS'' 3.53) = Inl TimeExhausted
   \<and> fst (batch_update_prices stalled_node [(''AWS'', 2.75), (''GCP'', 4.6)]) = Inl TimeExhausted
   \<and> fst (update_price confirming_node 18 3.53) = Inr ''0xabc''
   \<and> fst (update_single_price confirming_node ''AWS'' 3.53) = Inr ''0xabc''
   \<and> fst (batch_update_prices confirming_node [(''AWS'', 2.75), (''GCP'', 4.6)]) = Inr ''0xabc''"
proof -
  have acc_s: "\<forall>tx. send_raw_result stalled_node tx = Inr ''0xabc''"
    by (simp add: stalled_node_def)
  have acc_c: "\<forall>tx. send_raw_result confirming_node tx = Inr ''0xabc''"
    by (simp add: confirming_node_def)
  have none: "receipt_within stalled_node ''0xabc'' 180 = None"
    by (simp add: stalled_node_def)
  have some: "receipt_within confirming_node ''0xabc'' 180 = Some \<lparr>status = 1, gasUsed = 45000\<rparr>"
    by (simp add: confirming_node_def)
  have k1: "map_of H200_PROVIDERS (upper ''AWS'') \<noteq> None"
    by code_simp
  have k2: "\<forall>(q, y) \<in> set [(''AWS'', 2.75 :: real), (''GCP'', 4.6)].
              map_of H200_PROVIDERS (upper q) \<noteq> None"
    by code_simp
  show ?thesis
    using timeout_raises_status_not_read
            [OF acc_s, of 18 "3.53" "''AWS''" "[(''AWS'', 2.75), (''GCP'', 4.6)]"]
          timeout_raises_status_not_read
            [OF acc_c, of 18 "3.53" "''AWS''" "[(''AWS'', 2.75), (''GCP'', 4.6)]"]
          none some k1 k2
    by simp
qed

text \<open>
  C4 as stated fails: a receipt with status 0 (a reverted transaction) is not reported to
  the caller as a failure.  On a node that confirms the transaction as reverted, all three
  publishers return the transaction hash, as they do for a successful one.
\<close>

theorem reverted_receipt_returned_as_success:
  "receipt_within reverting_node ''0xabc'' 180 = Some \<lparr>status = 0, gasUsed = 45000\<rparr>
   \<and> fst (update_single_price reverting_node ''AWS'' 2.75) = Inr ''0xabc''
   \<and> fst (batch_update_prices reverting_node [(''AWS'', 2.75), (''GCP'', 4.6)]) = Inr ''0xabc''
   \<and> fst (update_price reverting_node 18 3.53) = Inr ''0xabc''"
  by code_simp

section \<open>Properties of the database publisher\<close>

subsection \<open>Validation against the history\<close>

lemma floats_of_None:
  "PyNone \<in> set vs \<Longrightarrow> floats_of vs = Inl TypeError"
  by (induction vs) (auto simp: py_float_def split: pyval.splits sum.splits)

lemma select_last_two_short:
  "\<not> select_raises sb \<Longrightarrow> length (h200_index_prices sb) < 2 \<Longrightarrow>
   validate_price sb p tol = (True, [WarnNotEnoughHistory (length (h200_index_prices sb))])"
  by (simp add: validate_price_def validate_price_try_def select_last_two_def)

lemma validate_price_two:
  assumes "\<not> select_raises sb"
    and "h200_index_prices sb = older @ [r2, r1]"
    and "row_index_price r1 = PyFloat a" and "row_index_price r2 = PyFloat b"
  shows "validate_price sb (PyFloat x) tol =
      (if (a + b) / 2 = 0 then (True, [WarnValidationError ZeroDivisionError])
       else if (a + b) / 2 * (1 - tol) \<le> x \<and> x \<le> (a + b) / 2 * (1 + tol) then (True, [OkValid])
       else (False, [FailInvalid]))"
  using assms
  by (simp add: validate_price_def validate_price_try_def select_last_two_def py_float_def Let_def)

text \<open>
  C3.  Every error raised while the history is retrieved or processed makes the
  validation accept: when the query raises (the store is unreachable), and when one of the two most
  recent records has no numeric price (a malformed record), \<^verbatim>\<open>validate_price\<close> logs the
  warning and returns \<^verbatim>\<open>True\<close>; so it does for any exception of its \<^verbatim>\<open>try\<close> block.
\<close>

theorem validate_price_fails_open:
  "(select_raises sb \<longrightarrow> validate_price sb p tol = (True, [WarnValidationError APIError]))
   \<and> (\<not> select_raises sb \<and> 2 \<le> length (h200_index_prices sb)
        \<and> PyNone \<in> set (map row_index_price (take 2 (rev (h200_index_prices sb)))) \<longrightarrow>
        validate_price sb p tol = (True, [WarnValidationError TypeError]))
   \<and> (\<forall>e. validate_price_try sb p tol = Inl e \<longrightarrow>
        validate_price sb p tol = (True, [WarnValidationError e]))"
proof (intro conjI impI allI)
  assume "select_raises sb"
  then show "validate_price sb p tol = (True, [WarnValidationError APIError])"
    by (simp add: validate_price_def validate_price_try_def select_last_two_def)
next
  assume h: "\<not> select_raises sb \<and> 2 \<le> length (h200_index_prices sb)
        \<and> PyNone \<in> set (map row_index_price (take 2 (rev (h200_index_prices sb))))"
  then have "floats_of (map row_index_price (take 2 (rev (h200_index_prices sb)))) = Inl TypeError"
    using floats_of_None by blast
  with h show "validate_price sb p tol = (True, [WarnValidationError TypeError])"
    by (simp add: validate_price_def validate_price_try_def select_last_two_def)
next
  fix e assume "validate_price_try sb p tol = Inl e"
  then show "validate_price sb p tol = (True, [WarnValidationError e])"
    by (simp add: validate_price_def)
qed

theorem validate_price_fails_open_witness:
  "validate_price ((store_with [sample_row 1 4.00, sample_row 2 4.20])\<lparr>select_raises := True\<rparr>)
      (PyFloat 5.20) 0.25 = (True, [WarnValidationError APIError])
   \<and> validate_price
        (store_with [sample_row 1 4.00, (sample_row 2 4.20)\<lparr>row_index_price := PyNone\<rparr>])
        (PyFloat 5.20) 0.25 = (True, [WarnValidationError TypeError])
   \<and> validate_price (store_with [sample_row 1 4.00, sample_row 2 4.20]) PyNone 0.25
        = (True, [WarnValidationError TypeError])"
proof -
  let ?down = "(store_with [sample_row 1 4.00, sample_row 2 4.20])\<lparr>select_raises := True\<rparr>"
  let ?bad = "store_with [sample_row 1 4.00, (sample_row 2 4.20)\<lparr>row_index_price := PyNone\<rparr>]"
  have d: "select_raises ?down" by simp
  have b: "\<not> select_raises ?bad \<and> 2 \<le> length (h200_index_prices ?bad)
        \<and> PyNone \<in> set (map row_index_price (take 2 (rev (h200_index_prices ?bad))))"
    by (simp add: store_with_def)
  have t: "validate_price_try (store_with [sample_row 1 4.00, sample_row 2 4.20]) PyNone 0.25
      = Inl TypeError"
    by code_simp
  show ?thesis
    using validate_price_fails_open[of ?down "PyFloat 5.20" "0.25", THEN conjunct1, THEN mp, OF d]
      validate_price_fails_open[of ?bad "PyFloat 5.20" "0.25", THEN conjunct2, THEN conjunct1,
        THEN mp, OF b]
      validate_price_fails_open[of "store_with [sample_row 1 4.00, sample_row 2 4.20]" PyNone
        "0.25", THEN conjunct2, THEN conjunct2, THEN spec, THEN mp, OF t]
    by simp
qed

text \<open>
  The validation rule where it holds: with fewer than two records every price is accepted;
  with two most recent prices \<open>a\<close> and \<open>b\<close> whose mean is not zero, a numeric price is
  accepted exactly when it lies in the closed interval around the mean; and with
  \<open>{4.00, 4.20}\<close> the price \<open>5.00\<close> is accepted and \<open>5.20\<close> is rejected.
\<close>

lemma validate_price_within_bounds:
  "(\<not> select_raises sb \<and> length (h200_index_prices sb) < 2 \<longrightarrow>
      fst (validate_price sb p tol))
   \<and> (\<not> select_raises sb \<and> h200_index_prices sb = older @ [r2, r1]
        \<and> row_index_price r1 = PyFloat a \<and> row_index_price r2 = PyFloat b
        \<and> (a + b) / 2 \<noteq> 0 \<longrightarrow>
      fst (validate_price sb (PyFloat x) tol) =
        ((a + b) / 2 * (1 - tol) \<le> x \<and> x \<le> (a + b) / 2 * (1 + tol)))
   \<and> fst (validate_price (store_with [sample_row 1 4.00, sample_row 2 4.20]) (PyFloat 5.00) 0.25)
   \<and> \<not> fst (validate_price (store_with [sample_row 1 4.00, sample_row 2 4.20]) (PyFloat 5.20) 0.25)"
proof (intro conjI impI)
  assume "\<not> select_raises sb \<and> length (h200_index_prices sb) < 2"
  then show "fst (validate_price sb p tol)"
    by (simp add: select_last_two_short)
next
  assume "\<not> select_raises sb \<and> h200_index_prices sb = older @ [r2, r1]
        \<and> row_index_price r1 = PyFloat a \<and> row_index_price r2 = PyFloat b
        \<and> (a + b) / 2 \<noteq> 0"
  then show "fst (validate_price sb (PyFloat x) tol) =
        ((a + b) / 2 * (1 - tol) \<le> x \<and> x \<le> (a + b) / 2 * (1 + tol))"
    using validate_price_two[of sb older r2 r1 a b x tol] by auto
next
  show "fst (validate_price (store_with [sample_row 1 4.00, sample_row 2 4.20]) (PyFloat 5.00) 0.25)"
    by code_simp
next
  show "\<not> fst (validate_price (store_with [sample_row 1 4.00, sample_row 2 4.20]) (PyFloat 5.20) 0.25)"
    by code_simp
qed

text \<open>
  C1 at the input where the code departs from it.  The two most recent prices are both 0,
  so the mean and both bounds are 0 and the new price 5 lies outside them.  The deviation
  percentage computed for the message divides by the mean, the division raises, and the
  handler of the \<^verbatim>\<open>try\<close> block returns \<^verbatim>\<open>True\<close>: the price is accepted.  Such a history
  arises from the publisher itself: starting with an empty table, two pushes of the price 0
  are accepted without validation, and the third push, of 5, is then published.
\<close>

theorem validate_price_zero_average_accepts_outlier:
  "validate_price (store_with [sample_row 1 0, sample_row 2 0]) (PyFloat 5) 0.25
     = (True, [WarnValidationError ZeroDivisionError])
   \<and> \<not> ((0 + 0) / 2 * (1 - 0.25) \<le> (5 :: real) \<and> (5 :: real) \<le> (0 + 0) / 2 * (1 + 0.25))
   \<and> (let s1 = fst (snd (push_to_supabase sample_env (store_with []) (sample_data (PyFloat 0))));
           s2 = fst (snd (push_to_supabase sample_env s1 (sample_data (PyFloat 0))));
           r = push_to_supabase sample_env s2 (sample_data (PyFloat 5))
       in fst r \<and> map row_index_price (h200_index_prices (fst (snd r)))
                    = [PyFloat 0, PyFloat 0, PyFloat 5])"
  by code_simp

subsection \<open>Publication\<close>

lemma validate_price_None_accepts:
  "fst (validate_price sb PyNone tol)"
  by (auto simp: validate_price_def validate_price_try_def Let_def split: sum.splits)

lemma push_to_supabase_try_None:
  "final_index_price d = PyNone \<Longrightarrow>
   fst (push_to_supabase_try env sb d) \<noteq> Inr True \<and> fst (snd (push_to_supabase_try env sb d)) = sb"
  using validate_price_None_accepts[of sb "0.25"]
  by (auto simp: push_to_supabase_try_def Let_def py_format_f_def split: prod.splits)

lemma push_to_supabase_try_None_log:
  "final_index_price d = PyNone \<Longrightarrow> \<not> create_client_raises env \<Longrightarrow>
   push_to_supabase_try env sb d = (Inl TypeError, sb, snd (validate_price sb PyNone 0.25))"
  using validate_price_None_accepts[of sb "0.25"]
  by (auto simp: push_to_supabase_try_def Let_def py_format_f_def split: prod.splits)

text \<open>
  C10, as the code has it.  When the index data has no \<^verbatim>\<open>final_index_price\<close>,
  \<^verbatim>\<open>validate_price\<close> accepts (by the bootstrap policy, or because the exception is caught),
  but nothing is published: formatting the price for the progress message raises
  \<^verbatim>\<open>TypeError\<close> before the insert, the outer handler logs the error, \<^verbatim>\<open>push_to_supabase\<close>
  returns \<^verbatim>\<open>False\<close> and the store is unchanged.
\<close>

theorem push_to_supabase_None_not_inserted:
  assumes "final_index_price d = PyNone"
  shows "fst (validate_price sb (final_index_price d) 0.25)
       \<and> fst (push_to_supabase env sb d) = False
       \<and> fst (snd (push_to_supabase env sb d)) = sb
       \<and> (SUPABASE_URL env \<notin> {None, Some []} \<and> SUPABASE_SERVICE_KEY env \<notin> {None, Some []}
            \<and> supabase_installed env \<and> \<not> create_client_raises env \<longrightarrow>
          snd (snd (push_to_supabase env sb d))
            = snd (validate_price sb PyNone 0.25) @ [ErrPush TypeError])"
proof (intro conjI impI)
  show "fst (validate_price sb (final_index_price d) 0.25)"
    using assms validate_price_None_accepts[of sb "0.25"] by simp
  show "fst (push_to_supabase env sb d) = False"
    using assms push_to_supabase_try_None[of d env sb]
    by (auto simp: push_to_supabase_def split: prod.splits sum.splits)
  show "fst (snd (push_to_supabase env sb d)) = sb"
    using assms push_to_supabase_try_None[of d env sb]
    by (auto simp: push_to_supabase_def split: prod.splits sum.splits)
next
  assume "SUPABASE_URL env \<notin> {None, Some []} \<and> SUPABASE_SERVICE_KEY env \<notin> {None, Some []}
            \<and> supabase_installed env \<and> \<not> create_client_raises env"
  then show "snd (snd (push_to_supabase env sb d))
            = snd (validate_price sb PyNone 0.25) @ [ErrPush TypeError]"
    using assms push_to_supabase_try_None_log[of d env sb]
    by (simp add: push_to_supabase_def)
qed

theorem push_to_supabase_None_not_inserted_witness:
  "fst (validate_price (store_with [sample_row 1 4.00, sample_row 2 4.20]) PyNone 0.25)
   \<and> push_to_supabase sample_env (store_with [sample_row 1 4.00, sample_row 2 4.20])
        (sample_data PyNone)
      = (False, store_with [sample_row 1 4.00, sample_row 2 4.20],
         [WarnValidationError TypeError, ErrPush TypeError])"
proof -
  let ?st = "store_with [sample_row 1 4.00, sample_row 2 4.20]"
  have n: "final_index_price (sample_data PyNone) = PyNone"
    by (simp add: sample_data_def)
  have env: "SUPABASE_URL sample_env \<notin> {None, Some []}
            \<and> SUPABASE_SERVICE_KEY sample_env \<notin> {None, Some []}
            \<and> supabase_installed sample_env \<and> \<not> create_client_raises sample_env"
    by (simp add: sample_env_def)
  have vlog: "snd (validate_price ?st PyNone 0.25) = [WarnValidationError TypeError]"
    by code_simp
  show ?thesis
    using push_to_supabase_None_not_inserted[OF n, of ?st sample_env] env vlog n
    by (cases "push_to_supabase sample_env ?st (sample_data PyNone)") simp
qed

text \<open>
  C10 as stated fails: with the history \<open>{4.00, 4.20}\<close> and index data without a price,
  \<^verbatim>\<open>validate_price\<close> accepts, yet \<^verbatim>\<open>push_to_supabase\<close> returns \<^verbatim>\<open>False\<close>, the table of index prices is what
  it was, and no row with a null price exists.
\<close>

theorem None_price_is_not_published:
  "fst (validate_price (store_with [sample_row 1 4.00, sample_row 2 4.20])
          (final_index_price (sample_data PyNone)) 0.25)
   \<and> fst (push_to_supabase sample_env (store_with [sample_row 1 4.00, sample_row 2 4.20])
            (sample_data PyNone)) = False
   \<and> h200_index_prices (fst (snd (push_to_supabase sample_env
          (store_with [sample_row 1 4.00, sample_row 2 4.20]) (sample_data PyNone))))
      = [sample_row 1 4.00, sample_row 2 4.20]
   \<and> list_all (\<lambda>r. row_index_price r \<noteq> PyNone)
        (h200_index_prices (fst (snd (push_to_supabase sample_env
          (store_with [sample_row 1 4.00, sample_row 2 4.20]) (sample_data PyNone)))))"
  by code_simp

lemma provider_records_index_id:
  "provider_records i ts ds = Inr rs \<Longrightarrow> list_all (\<lambda>r. pr_index_id r = i) rs"
proof (induction ds arbitrary: rs)
  case Nil
  then show ?case by simp
next
  case (Cons d ds)
  then show ?case
    by (auto simp: provider_record_def split: sum.splits)
qed

lemma push_hyperscaler_prices_cases:
  "push_hyperscaler_prices sb d i = (b, sb', lg) \<Longrightarrow>
     (\<not> b \<and> sb' = sb \<and> (\<exists>w. lg = [w] \<and> is_warning w))
   \<or> (b \<and> provider_insert sb = Stores
        \<and> (\<exists>rs. rs \<noteq> [] \<and> provider_records i (timestamp d) (hyperscaler_details d) = Inr rs
              \<and> sb' = sb\<lparr>h200_provider_prices := h200_provider_prices sb @ rs\<rparr>
              \<and> lg = [OkProviderPrices (length rs)]))"
  by (auto simp: push_hyperscaler_prices_def insert_provider_prices_def is_warning_def
      split: sum.splits list.splits insert_mode.splits prod.splits)

lemma push_to_supabase_try_cases:
  assumes "push_to_supabase_try env sb d = (res, sb', lg)"
  shows "(res \<noteq> Inr True \<and> sb' = sb)
       \<or> (res = Inr True
            \<and> fst (validate_price sb (final_index_price d) 0.25)
            \<and> index_insert sb = Stores
            \<and> (\<exists>b plog. push_hyperscaler_prices
                   (sb\<lparr>h200_index_prices := h200_index_prices sb @
                         [(insert_data_of d)\<lparr>row_id := next_id (h200_index_prices sb)\<rparr>]\<rparr>)
                   d (next_id (h200_index_prices sb)) = (b, sb', plog)
                 \<and> lg = snd (validate_price sb (final_index_price d) 0.25)
                        @ [Success (next_id (h200_index_prices sb))] @ plog))"
  using assms
  by (auto simp: push_to_supabase_try_def insert_index_def Let_def insert_data_of_def
      split: prod.splits sum.splits list.splits insert_mode.splits if_splits)

lemma push_to_supabase_cases:
  assumes "push_to_supabase env sb d = (ok, sb', lg)"
  shows "(\<not> ok \<and> sb' = sb)
       \<or> (ok
            \<and> fst (validate_price sb (final_index_price d) 0.25)
            \<and> index_insert sb = Stores
            \<and> (\<exists>b plog. push_hyperscaler_prices
                   (sb\<lparr>h200_index_prices := h200_index_prices sb @
                         [(insert_data_of d)\<lparr>row_id := next_id (h200_index_prices sb)\<rparr>]\<rparr>)
                   d (next_id (h200_index_prices sb)) = (b, sb', plog)
                 \<and> lg = snd (validate_price sb (final_index_price d) 0.25)
                        @ [Success (next_id (h200_index_prices sb))] @ plog))"
proof (cases "push_to_supabase_try env sb d")
  case (fields res sb1 lg1)
  from push_to_supabase_try_cases[OF fields] assms fields show ?thesis
    by (auto simp: push_to_supabase_def split: if_splits sum.splits)
qed

text \<open>
  C2.  \<^verbatim>\<open>push_to_supabase\<close> inserts a snapshot row only after \<^verbatim>\<open>validate_price\<close> has returned
  \<^verbatim>\<open>True\<close>: when validation rejects, it returns \<^verbatim>\<open>False\<close> and leaves the store as it was;
  whenever the table of index prices has changed, validation had accepted.
\<close>

theorem push_only_after_validation:
  "(\<not> fst (validate_price sb (final_index_price d) 0.25) \<longrightarrow>
       fst (push_to_supabase env sb d) = False \<and> fst (snd (push_to_supabase env sb d)) = sb)
   \<and> (h200_index_prices (fst (snd (push_to_supabase env sb d))) \<noteq> h200_index_prices sb \<longrightarrow>
       fst (validate_price sb (final_index_price d) 0.25))"
proof (cases "push_to_supabase env sb d")
  case (fields ok sb' lg)
  from push_to_supabase_cases[OF fields] fields show ?thesis
    by auto
qed

theorem push_only_after_validation_witness:
  "\<not> fst (validate_price (store_with [sample_row 1 4.00, sample_row 2 4.20]) (PyFloat 5.20) 0.25)
   \<and> push_to_supabase sample_env (store_with [sample_row 1 4.00, sample_row 2 4.20])
        (sample_data (PyFloat 5.20))
      = (False, store_with [sample_row 1 4.00, sample_row 2 4.20], [FailInvalid, ErrValidationFailed])
   \<and> length (h200_index_prices (fst (snd (push_to_supabase sample_env
          (store_with [sample_row 1 4.00, sample_row 2 4.20]) (sample_data (PyFloat 5.00)))))) = 3
   \<and> fst (validate_price (store_with [sample_row 1 4.00, sample_row 2 4.20]) (PyFloat 5.00) 0.25)"
proof -
  let ?st = "store_with [sample_row 1 4.00, sample_row 2 4.20]"
  have rej: "\<not> fst (validate_price ?st (final_index_price (sample_data (PyFloat 5.20))) 0.25)"
    by code_simp
  have lg: "snd (snd (push_to_supabase sample_env ?st (sample_data (PyFloat 5.20))))
      = [FailInvalid, ErrValidationFailed]"
    by code_simp
  have ins: "length (h200_index_prices (fst (snd (push_to_supabase sample_env ?st
                (sample_data (PyFloat 5.00)))))) = 3"
    by code_simp
  have changed: "h200_index_prices (fst (snd (push_to_supabase sample_env ?st
                (sample_data (PyFloat 5.00))))) \<noteq> h200_index_prices ?st"
    using ins by (auto simp: store_with_def)
  have f1: "final_index_price (sample_data (PyFloat 5.20)) = PyFloat 5.20"
    by (simp add: sample_data_def)
  have f2: "final_index_price (sample_data (PyFloat 5.00)) = PyFloat 5.00"
    by (simp add: sample_data_def)
  from push_only_after_validation[of ?st "sample_data (PyFloat 5.20)" sample_env,
      THEN conjunct1, THEN mp, OF rej]
  have a: "push_to_supabase sample_env ?st (sample_data (PyFloat 5.20))
      = (False, ?st, [FailInvalid, ErrValidationFailed])"
    using lg by (cases "push_to_supabase sample_env ?st (sample_data (PyFloat 5.20))") simp
  from push_only_after_validation[of ?st "sample_data (PyFloat 5.00)" sample_env,
      THEN conjunct2, THEN mp, OF changed]
  have b: "fst (validate_price ?st (PyFloat 5.00) 0.25)"
    unfolding f2 .
  from rej have c: "\<not> fst (validate_price ?st (PyFloat 5.20) 0.25)"
    unfolding f1 .
  show ?thesis
    using a b c ins by blast
qed

lemma push_hyperscaler_prices_fails:
  assumes "provider_insert sb \<noteq> Stores
           \<or> isl (provider_records i (timestamp d) (hyperscaler_details d))"
  shows "\<exists>w. push_hyperscaler_prices sb d i = (False, sb, [w]) \<and> is_warning w"
  using assms
  by (auto simp: push_hyperscaler_prices_def insert_provider_prices_def is_warning_def
      split: sum.splits list.splits insert_mode.splits)

lemma push_hyperscaler_prices_stores:
  assumes "provider_insert sb = Stores"
    and "provider_records i (timestamp d) (hyperscaler_details d) = Inr rs" and "rs \<noteq> []"
  shows "push_hyperscaler_prices sb d i =
           (True, sb\<lparr>h200_provider_prices := h200_provider_prices sb @ rs\<rparr>,
            [OkProviderPrices (length rs)])"
  using assms
  by (auto simp: push_hyperscaler_prices_def insert_provider_prices_def split: list.splits)

lemma push_to_supabase_forward:
  assumes creds: "SUPABASE_URL env \<notin> {None, Some []}" "SUPABASE_SERVICE_KEY env \<notin> {None, Some []}"
    and lib: "supabase_installed env" and client: "\<not> create_client_raises env"
    and valid: "fst (validate_price sb (final_index_price d) 0.25)"
    and nums: "final_index_price d \<noteq> PyNone" "hyperscaler_component d \<noteq> PyNone"
              "neocloud_component d \<noteq> PyNone"
    and stores: "index_insert sb = Stores"
  shows "push_to_supabase env sb d =
     (case push_hyperscaler_prices
        (sb\<lparr>h200_index_prices := h200_index_prices sb @
              [(insert_data_of d)\<lparr>row_id := next_id (h200_index_prices sb)\<rparr>]\<rparr>)
        d (next_id (h200_index_prices sb)) of
        (pushed, sb2, plog) \<Rightarrow>
          (True, sb2, snd (validate_price sb (final_index_price d) 0.25)
                      @ [Success (next_id (h200_index_prices sb))] @ plog))"
  using assms
  by (cases "validate_price sb (final_index_price d) 0.25")
     (auto simp: push_to_supabase_def push_to_supabase_try_def insert_index_def Let_def
        insert_data_of_def py_format_f_def split: prod.splits pyval.splits)

text \<open>
  C5.  The two insert phases are not symmetric.  When the snapshot insert does not store
  the row, the publisher reports failure and nothing at all is written.  When the snapshot
  insert is reached and the store accepts it, the publisher reports success and the table
  holds the new snapshot row, whatever happens to the observation rows: when the
  observation insert fails (the store does not take the rows, or building a record
  raises), no observation row is written, the last line of the log is a warning and the
  snapshot row is still there; when it succeeds, the rows built from the details are
  appended.  Conversely, whenever the table of index prices has changed, the publisher
  reported success, and every observation row written carries the id of the snapshot row
  stored in the same run, so observations without a snapshot never occur.
\<close>

theorem insert_phases_asymmetric:
  assumes run: "push_to_supabase env sb d = (ok, sb', lg)"
  shows "(index_insert sb \<noteq> Stores \<longrightarrow> \<not> ok \<and> sb' = sb)
       \<and> (h200_index_prices sb' = h200_index_prices sb \<longrightarrow> \<not> ok \<and> sb' = sb)
       \<and> (h200_index_prices sb' \<noteq> h200_index_prices sb \<longrightarrow>
            ok
          \<and> h200_index_prices sb' = h200_index_prices sb @
               [\<lparr>row_id = next_id (h200_index_prices sb), row_timestamp = timestamp d,
                 row_index_price = final_index_price d,
                 row_hyperscaler_component = hyperscaler_component d,
                 row_neocloud_component = neocloud_component d,
                 row_hyperscaler_count = hyperscaler_count d,
                 row_neocloud_count = neocloud_count d\<rparr>]
          \<and> (\<exists>rs. h200_provider_prices sb' = h200_provider_prices sb @ rs
                \<and> list_all (\<lambda>r. pr_index_id r = next_id (h200_index_prices sb)) rs
                \<and> (provider_insert sb \<noteq> Stores \<longrightarrow> rs = [])
                \<and> (rs = [] \<longrightarrow> lg \<noteq> [] \<and> is_warning (last lg))))
       \<and> (SUPABASE_URL env \<notin> {None, Some []} \<and> SUPABASE_SERVICE_KEY env \<notin> {None, Some []}
            \<and> supabase_installed env \<and> \<not> create_client_raises env
            \<and> fst (validate_price sb (final_index_price d) 0.25)
            \<and> final_index_price d \<noteq> PyNone \<and> hyperscaler_component d \<noteq> PyNone
            \<and> neocloud_component d \<noteq> PyNone
            \<and> index_insert sb = Stores \<longrightarrow>
            ok
          \<and> h200_index_prices sb' = h200_index_prices sb @
               [\<lparr>row_id = next_id (h200_index_prices sb), row_timestamp = timestamp d,
                 row_index_price = final_index_price d,
                 row_hyperscaler_component = hyperscaler_component d,
                 row_neocloud_component = neocloud_component d,
                 row_hyperscaler_count = hyperscaler_count d,
                 row_neocloud_count = neocloud_count d\<rparr>]
          \<and> (provider_insert sb \<noteq> Stores
               \<or> isl (provider_records (next_id (h200_index_prices sb)) (timestamp d)
                        (hyperscaler_details d)) \<longrightarrow>
                 h200_provider_prices sb' = h200_provider_prices sb
               \<and> lg \<noteq> [] \<and> is_warning (last lg))
          \<and> (\<forall>rs. provider_insert sb = Stores
                 \<and> provider_records (next_id (h200_index_prices sb)) (timestamp d)
                      (hyperscaler_details d) = Inr rs \<and> rs \<noteq> [] \<longrightarrow>
                 h200_provider_prices sb' = h200_provider_prices sb @ rs))"
proof -
  have old_part: "(index_insert sb \<noteq> Stores \<longrightarrow> \<not> ok \<and> sb' = sb)
       \<and> (h200_index_prices sb' = h200_index_prices sb \<longrightarrow> \<not> ok \<and> sb' = sb)
       \<and> (h200_index_prices sb' \<noteq> h200_index_prices sb \<longrightarrow>
            ok
          \<and> h200_index_prices sb' = h200_index_prices sb @
               [\<lparr>row_id = next_id (h200_index_prices sb), row_timestamp = timestamp d,
                 row_index_price = final_index_price d,
                 row_hyperscaler_component = hyperscaler_component d,
                 row_neocloud_component = neocloud_component d,
                 row_hyperscaler_count = hyperscaler_count d,
                 row_neocloud_count = neocloud_count d\<rparr>]
          \<and> (\<exists>rs. h200_provider_prices sb' = h200_provider_prices sb @ rs
                \<and> list_all (\<lambda>r. pr_index_id r = next_id (h200_index_prices sb)) rs
                \<and> (provider_insert sb \<noteq> Stores \<longrightarrow> rs = [])
                \<and> (rs = [] \<longrightarrow> lg \<noteq> [] \<and> is_warning (last lg))))"
  proof -
    from push_to_supabase_cases[OF run]
    consider (abort) "\<not> ok" "sb' = sb"
      | (stored) b plog where "ok" "index_insert sb = Stores"
          "push_hyperscaler_prices
             (sb\<lparr>h200_index_prices := h200_index_prices sb @
                   [(insert_data_of d)\<lparr>row_id := next_id (h200_index_prices sb)\<rparr>]\<rparr>)
             d (next_id (h200_index_prices sb)) = (b, sb', plog)"
          "lg = snd (validate_price sb (final_index_price d) 0.25)
                 @ [Success (next_id (h200_index_prices sb))] @ plog"
      by blast
    then show ?thesis
    proof cases
      case abort
      then show ?thesis by simp
    next
      case stored
      let ?sb1 = "sb\<lparr>h200_index_prices := h200_index_prices sb @
                   [(insert_data_of d)\<lparr>row_id := next_id (h200_index_prices sb)\<rparr>]\<rparr>"
      from push_hyperscaler_prices_cases[OF stored(3)]
      consider (warn) w where "\<not> b" "sb' = ?sb1" "plog = [w]" "is_warning w"
        | (rows) rs where "b" "provider_insert ?sb1 = Stores" "rs \<noteq> []"
            "provider_records (next_id (h200_index_prices sb)) (timestamp d) (hyperscaler_details d) = Inr rs"
            "sb' = ?sb1\<lparr>h200_provider_prices := h200_provider_prices ?sb1 @ rs\<rparr>"
        by blast
      then show ?thesis
      proof cases
        case warn
        with stored show ?thesis
          by (simp add: insert_data_of_def)
      next
        case rows
        from provider_records_index_id[OF rows(4)] rows stored show ?thesis
          by (simp add: insert_data_of_def)
      qed
    qed
  qed
  have fwd: "(SUPABASE_URL env \<notin> {None, Some []} \<and> SUPABASE_SERVICE_KEY env \<notin> {None, Some []}
            \<and> supabase_installed env \<and> \<not> create_client_raises env
            \<and> fst (validate_price sb (final_index_price d) 0.25)
            \<and> final_index_price d \<noteq> PyNone \<and> hyperscaler_component d \<noteq> PyNone
            \<and> neocloud_component d \<noteq> PyNone
            \<and> index_insert sb = Stores \<longrightarrow>
            ok
          \<and> h200_index_prices sb' = h200_index_prices sb @
               [\<lparr>row_id = next_id (h200_index_prices sb), row_timestamp = timestamp d,
                 row_index_price = final_index_price d,
                 row_hyperscaler_component = hyperscaler_component d,
                 row_neocloud_component = neocloud_component d,
                 row_hyperscaler_count = hyperscaler_count d,
                 row_neocloud_count = neocloud_count d\<rparr>]
          \<and> (provider_insert sb \<noteq> Stores
               \<or> isl (provider_records (next_id (h200_index_prices sb)) (timestamp d)
                        (hyperscaler_details d)) \<longrightarrow>
                 h200_provider_prices sb' = h200_provider_prices sb
               \<and> lg \<noteq> [] \<and> is_warning (last lg))
          \<and> (\<forall>rs. provider_insert sb = Stores
                 \<and> provider_records (next_id (h200_index_prices sb)) (timestamp d)
                      (hyperscaler_details d) = Inr rs \<and> rs \<noteq> [] \<longrightarrow>
                 h200_provider_prices sb' = h200_provider_prices sb @ rs))"
  proof (intro impI)
    assume h: "SUPABASE_URL env \<notin> {None, Some []} \<and> SUPABASE_SERVICE_KEY env \<notin> {None, Some []}
            \<and> supabase_installed env \<and> \<not> create_client_raises env
            \<and> fst (validate_price sb (final_index_price d) 0.25)
            \<and> final_index_price d \<noteq> PyNone \<and> hyperscaler_component d \<noteq> PyNone
            \<and> neocloud_component d \<noteq> PyNone
            \<and> index_insert sb = Stores"
    let ?i = "next_id (h200_index_prices sb)"
    let ?sb1 = "sb\<lparr>h200_index_prices := h200_index_prices sb @
                 [(insert_data_of d)\<lparr>row_id := ?i\<rparr>]\<rparr>"
    let ?vlog = "snd (validate_price sb (final_index_price d) 0.25)"
    from h have eq: "push_to_supabase env sb d =
       (case push_hyperscaler_prices ?sb1 d ?i of
          (pushed, sb2, plog) \<Rightarrow> (True, sb2, ?vlog @ [Success ?i] @ plog))"
      by (intro push_to_supabase_forward) simp_all
    have pi: "provider_insert ?sb1 = provider_insert sb"
      and pp: "h200_provider_prices ?sb1 = h200_provider_prices sb"
      by simp_all
    have fails: "h200_provider_prices sb' = h200_provider_prices sb
               \<and> lg \<noteq> [] \<and> is_warning (last lg)"
      if f: "provider_insert sb \<noteq> Stores
               \<or> isl (provider_records ?i (timestamp d) (hyperscaler_details d))"
    proof -
      from f pi obtain w where
        w: "push_hyperscaler_prices ?sb1 d ?i = (False, ?sb1, [w])" "is_warning w"
        using push_hyperscaler_prices_fails[of ?sb1 ?i d] by auto
      with eq run show ?thesis by simp
    qed
    have stored: "h200_provider_prices sb' = h200_provider_prices sb @ rs"
      if s: "provider_insert sb = Stores
             \<and> provider_records ?i (timestamp d) (hyperscaler_details d) = Inr rs \<and> rs \<noteq> []"
      for rs
    proof -
      from s pi have "push_hyperscaler_prices ?sb1 d ?i =
           (True, ?sb1\<lparr>h200_provider_prices := h200_provider_prices ?sb1 @ rs\<rparr>,
            [OkProviderPrices (length rs)])"
        by (intro push_hyperscaler_prices_stores) simp_all
      with eq run show ?thesis by simp
    qed
    have index: "ok \<and> h200_index_prices sb' = h200_index_prices sb @ [(insert_data_of d)\<lparr>row_id := ?i\<rparr>]"
    proof (cases "push_hyperscaler_prices ?sb1 d ?i")
      case (fields pushed sb2 plog)
      from push_hyperscaler_prices_cases[OF fields]
      have "h200_index_prices sb2 = h200_index_prices ?sb1" by auto
      with eq run fields show ?thesis by simp
    qed
    from index fails stored show
      "ok
          \<and> h200_index_prices sb' = h200_index_prices sb @
               [\<lparr>row_id = next_id (h200_index_prices sb), row_timestamp = timestamp d,
                 row_index_price = final_index_price d,
                 row_hyperscaler_component = hyperscaler_component d,
                 row_neocloud_component = neocloud_component d,
                 row_hyperscaler_count = hyperscaler_count d,
                 row_neocloud_count = neocloud_count d\<rparr>]
          \<and> (provider_insert sb \<noteq> Stores
               \<or> isl (provider_records (next_id (h200_index_prices sb)) (timestamp d)
                        (hyperscaler_details d)) \<longrightarrow>
                 h200_provider_prices sb' = h200_provider_prices sb
               \<and> lg \<noteq> [] \<and> is_warning (last lg))
          \<and> (\<forall>rs. provider_insert sb = Stores
                 \<and> provider_records (next_id (h200_index_prices sb)) (timestamp d)
                      (hyperscaler_details d) = Inr rs \<and> rs \<noteq> [] \<longrightarrow>
                 h200_provider_prices sb' = h200_provider_prices sb @ rs)"
      by (simp add: insert_data_of_def)
  qed
  from old_part fwd show ?thesis by blast
qed

theorem insert_phases_asymmetric_witness:
  "fst (push_to_supabase sample_env
          ((store_with [sample_row 1 4.00, sample_row 2 4.20])\<lparr>provider_insert := InsertRaises\<rparr>)
          (sample_data (PyFloat 5.00)))
   \<and> length (h200_index_prices (fst (snd (push_to_supabase sample_env
          ((store_with [sample_row 1 4.00, sample_row 2 4.20])\<lparr>provider_insert := InsertRaises\<rparr>)
          (sample_data (PyFloat 5.00)))))) = 3
   \<and> h200_provider_prices (fst (snd (push_to_supabase sample_env
          ((store_with [sample_row 1 4.00, sample_row 2 4.20])\<lparr>provider_insert := InsertRaises\<rparr>)
          (sample_data (PyFloat 5.00))))) = []
   \<and> is_warning (last (snd (snd (push_to_supabase sample_env
          ((store_with [sample_row 1 4.00, sample_row 2 4.20])\<lparr>provider_insert := InsertRaises\<rparr>)
          (sample_data (PyFloat 5.00))))))
   \<and> push_to_supabase sample_env
          ((store_with [sample_row 1 4.00, sample_row 2 4.20])\<lparr>index_insert := InsertRaises\<rparr>)
          (sample_data (PyFloat 5.00))
      = (False, (store_with [sample_row 1 4.00, sample_row 2 4.20])\<lparr>index_insert := InsertRaises\<rparr>,
         [OkValid, ErrPush APIError])
   \<and> fst (push_to_supabase sample_env (store_with [sample_row 1 4.00, sample_row 2 4.20])
          (sample_data (PyFloat 5.00)))
   \<and> length (h200_provider_prices (fst (snd (push_to_supabase sample_env
          (store_with [sample_row 1 4.00, sample_row 2 4.20]) (sample_data (PyFloat 5.00)))))) = 1"
proof -
  let ?st = "store_with [sample_row 1 4.00, sample_row 2 4.20]"
  let ?obs = "?st\<lparr>provider_insert := InsertRaises\<rparr>"
  let ?snap = "?st\<lparr>index_insert := InsertRaises\<rparr>"
  let ?d = "sample_data (PyFloat 5.00)"
  have env: "SUPABASE_URL sample_env \<notin> {None, Some []}"
    "SUPABASE_SERVICE_KEY sample_env \<notin> {None, Some []}"
    "supabase_installed sample_env" "\<not> create_client_raises sample_env"
    by (simp_all add: sample_env_def)
  have nums: "final_index_price ?d \<noteq> PyNone" "hyperscaler_component ?d \<noteq> PyNone"
    "neocloud_component ?d \<noteq> PyNone"
    by (simp_all add: sample_data_def)
  have v_obs: "fst (validate_price ?obs (final_index_price ?d) 0.25)" by code_simp
  have v_st: "fst (validate_price ?st (final_index_price ?d) 0.25)" by code_simp
  have s_obs: "index_insert ?obs = Stores" "provider_insert ?obs \<noteq> Stores"
    "h200_index_prices ?obs = [sample_row 1 4.00, sample_row 2 4.20]"
    "h200_provider_prices ?obs = []"
    by (simp_all add: store_with_def)
  have s_st: "index_insert ?st = Stores" "provider_insert ?st = Stores"
    "h200_provider_prices ?st = []"
    by (simp_all add: store_with_def)
  obtain ok sb' lg where run: "push_to_supabase sample_env ?obs ?d = (ok, sb', lg)"
    by (cases "push_to_supabase sample_env ?obs ?d")
  have a: "ok \<and> length (h200_index_prices sb') = 3 \<and> h200_provider_prices sb' = []
           \<and> is_warning (last lg)"
    using insert_phases_asymmetric[OF run, THEN conjunct2, THEN conjunct2, THEN conjunct2,
        THEN mp] env nums v_obs s_obs
    by simp
  obtain ok2 sb2 lg2 where run2: "push_to_supabase sample_env ?snap ?d = (ok2, sb2, lg2)"
    by (cases "push_to_supabase sample_env ?snap ?d")
  have ii: "index_insert ?snap \<noteq> Stores"
    by (simp add: store_with_def)
  have lg2: "snd (snd (push_to_supabase sample_env ?snap ?d)) = [OkValid, ErrPush APIError]"
    by code_simp
  from insert_phases_asymmetric[OF run2, THEN conjunct1, THEN mp, OF ii] lg2 run2
  have b: "push_to_supabase sample_env ?snap ?d = (False, ?snap, [OkValid, ErrPush APIError])"
    by simp
  obtain ok3 sb3 lg3 where run3: "push_to_supabase sample_env ?st ?d = (ok3, sb3, lg3)"
    by (cases "push_to_supabase sample_env ?st ?d")
  obtain rs where rs: "provider_records (next_id (h200_index_prices ?st)) (timestamp ?d)
      (hyperscaler_details ?d) = Inr rs" "length rs = 1"
  proof -
    have "case provider_records (next_id (h200_index_prices ?st)) (timestamp ?d)
            (hyperscaler_details ?d) of Inl e \<Rightarrow> False | Inr rs \<Rightarrow> length rs = 1"
      by code_simp
    then show ?thesis
      using that by (auto split: sum.splits)
  qed
  then have rs_ne: "rs \<noteq> []" by auto
  have c: "ok3 \<and> length (h200_provider_prices sb3) = 1"
    using insert_phases_asymmetric[OF run3, THEN conjunct2, THEN conjunct2, THEN conjunct2,
        THEN mp] env nums v_st s_st rs rs_ne
    by simp
  show ?thesis
    using a b c run run3 by simp
qed


section \<open>Properties of the scrapers\<close>

subsection \<open>Plausibility of extracted prices\<close>

lemma validate_loop_iff:
  "validate_loop lo hi prices =
     (\<exists>(v, s) \<in> set prices. \<not> contains ''Error'' v \<and> (\<exists>p. price_of s = Some p \<and> lo < p \<and> p < hi))"
  by (induction lo hi prices rule: validate_loop.induct)
     (auto simp: price_of_def split: option.splits sum.splits)

lemma variants_without_Error:
  "\<not> contains ''Error'' hyperbolic_variant" "\<not> contains ''Error'' gcp_variant"
  by code_simp+

lemma hyperbolic_validate_single:
  "price_of s = Some v \<Longrightarrow>
   hyperbolic_validate_prices [(hyperbolic_variant, s)] = (1 < v \<and> v < 10)"
  by (simp add: hyperbolic_validate_prices_def validate_loop_iff variants_without_Error)

lemma gcp_validate_single:
  "price_of s = Some v \<Longrightarrow>
   gcp_validate_prices [(gcp_variant, s)] = (5 < v \<and> v < 25)"
  by (simp add: gcp_validate_prices_def validate_loop_iff variants_without_Error)

lemma hyperbolic_rejected_as_empty:
  "\<not> hyperbolic_validate_prices prices \<Longrightarrow>
   hyperbolic_get_h200_prices (before @ Inr prices # rest)
     = hyperbolic_get_h200_prices (before @ Inr [] # rest)"
  by (induction before rule: hyperbolic_get_h200_prices.induct) auto

lemma gcp_rejected_as_empty:
  "\<not> gcp_validate_prices prices \<Longrightarrow>
   gcp_first_valid (before @ Inr prices # rest) = gcp_first_valid (before @ Inr [] # rest)"
  by (induction before rule: gcp_first_valid.induct) auto

lemma hyperbolic_yield:
  "list_all (one_key_result hyperbolic_variant) methods \<Longrightarrow>
   hyperbolic_get_h200_prices methods = []
   \<or> (\<exists>s v. hyperbolic_get_h200_prices methods = [(hyperbolic_variant, s)]
          \<and> Inr [(hyperbolic_variant, s)] \<in> set methods
          \<and> price_of s = Some v \<and> 1 < v \<and> v < 10)"
proof (induction methods rule: hyperbolic_get_h200_prices.induct)
  case 1
  then show ?case by simp
next
  case (2 e methods)
  then show ?case by auto
next
  case (3 prices methods)
  show ?case
  proof (cases "prices \<noteq> [] \<and> hyperbolic_validate_prices prices")
    case True
    with 3(2) obtain s where p: "prices = [(hyperbolic_variant, s)]"
      by (auto simp: one_key_result_def split: list.splits)
    with True obtain v where "price_of s = Some v" "1 < v" "v < 10"
      by (auto simp: hyperbolic_validate_prices_def validate_loop_iff)
    with p True show ?thesis by auto
  next
    case False
    with 3 show ?thesis by auto
  qed
qed

lemma gcp_yield:
  "list_all (one_key_result gcp_variant) methods \<Longrightarrow>
   gcp_first_valid methods = []
   \<or> (\<exists>s v. gcp_first_valid methods = [(gcp_variant, s)]
          \<and> Inr [(gcp_variant, s)] \<in> set methods
          \<and> price_of s = Some v \<and> 5 < v \<and> v < 25)"
proof (induction methods rule: gcp_first_valid.induct)
  case 1
  then show ?case by simp
next
  case (2 e methods)
  then show ?case by auto
next
  case (3 prices methods)
  show ?case
  proof (cases "prices \<noteq> [] \<and> gcp_validate_prices prices")
    case True
    with 3(2) obtain s where p: "prices = [(gcp_variant, s)]"
      by (auto simp: one_key_result_def split: list.splits)
    with True obtain v where "price_of s = Some v" "5 < v" "v < 25"
      by (auto simp: gcp_validate_prices_def validate_loop_iff)
    with p True show ?thesis by auto
  next
    case False
    with 3 show ?thesis by auto
  qed
qed

text \<open>
  C8, as the code has it.  The plausibility test is an open interval per provider
  (Hyperbolic: \<open>1.0 < price < 10.0\<close>; GCP: \<open>5 < price < 25\<close>).  For every number \<open>v\<close> that
  a method's result holds, the result is accepted exactly when \<open>v\<close> lies strictly between
  the bounds, and a value strictly between them returned by a method is what the scraper
  takes.  A value outside, the bounds included, is treated as ``not found'' is: the
  scraper's output is the same as if the method had returned the empty dictionary.  It
  never yields a price observation: whatever either scraper yields comes from a method
  whose value lies strictly between the bounds.
\<close>

theorem validate_prices_open_interval:
  "(price_of s = Some v \<longrightarrow>
       hyperbolic_validate_prices [(hyperbolic_variant, s)] = (1 < v \<and> v < 10)
     \<and> gcp_validate_prices [(gcp_variant, s)] = (5 < v \<and> v < 25))
   \<and> (price_of s = Some v \<and> 1 < v \<and> v < 10 \<longrightarrow>
       hyperbolic_get_h200_prices (Inr [(hyperbolic_variant, s)] # rest)
         = [(hyperbolic_variant, s)])
   \<and> (price_of s = Some v \<and> 5 < v \<and> v < 25 \<longrightarrow>
       gcp_first_valid (Inr [(gcp_variant, s)] # rest) = [(gcp_variant, s)])
   \<and> (price_of s = Some v \<and> \<not> (1 < v \<and> v < 10) \<longrightarrow>
       hyperbolic_get_h200_prices (before @ Inr [(hyperbolic_variant, s)] # rest)
         = hyperbolic_get_h200_prices (before @ Inr [] # rest))
   \<and> (price_of s = Some v \<and> \<not> (5 < v \<and> v < 25) \<longrightarrow>
       gcp_get_h200_prices (before @ Inr [(gcp_variant, s)] # rest)
         = gcp_get_h200_prices (before @ Inr [] # rest))
   \<and> (list_all (one_key_result hyperbolic_variant) methods \<longrightarrow>
       hyperbolic_get_h200_prices methods = []
       \<or> (\<exists>s' v'. hyperbolic_get_h200_prices methods = [(hyperbolic_variant, s')]
              \<and> Inr [(hyperbolic_variant, s')] \<in> set methods
              \<and> price_of s' = Some v' \<and> 1 < v' \<and> v' < 10))
   \<and> (list_all (one_key_result gcp_variant) methods \<and> gcp_get_h200_prices methods \<noteq> None \<longrightarrow>
       (\<exists>s' v'. gcp_first_valid methods = [(gcp_variant, s')]
              \<and> Inr [(gcp_variant, s')] \<in> set methods
              \<and> price_of s' = Some v' \<and> 5 < v' \<and> v' < 25))"
proof (intro conjI impI)
  assume "price_of s = Some v"
  then show "hyperbolic_validate_prices [(hyperbolic_variant, s)] = (1 < v \<and> v < 10)"
    and "gcp_validate_prices [(gcp_variant, s)] = (5 < v \<and> v < 25)"
    by (simp_all add: hyperbolic_validate_single gcp_validate_single)
next
  assume "price_of s = Some v \<and> 1 < v \<and> v < 10"
  then show "hyperbolic_get_h200_prices (Inr [(hyperbolic_variant, s)] # rest)
         = [(hyperbolic_variant, s)]"
    by (simp add: hyperbolic_validate_single)
next
  assume "price_of s = Some v \<and> 5 < v \<and> v < 25"
  then show "gcp_first_valid (Inr [(gcp_variant, s)] # rest) = [(gcp_variant, s)]"
    by (simp add: gcp_validate_single)
next
  assume "price_of s = Some v \<and> \<not> (1 < v \<and> v < 10)"
  then have "\<not> hyperbolic_validate_prices [(hyperbolic_variant, s)]"
    by (simp add: hyperbolic_validate_single)
  then show "hyperbolic_get_h200_prices (before @ Inr [(hyperbolic_variant, s)] # rest)
         = hyperbolic_get_h200_prices (before @ Inr [] # rest)"
    by (rule hyperbolic_rejected_as_empty)
next
  assume "price_of s = Some v \<and> \<not> (5 < v \<and> v < 25)"
  then have "\<not> gcp_validate_prices [(gcp_variant, s)]"
    by (simp add: gcp_validate_single)
  then have "gcp_first_valid (before @ Inr [(gcp_variant, s)] # rest)
         = gcp_first_valid (before @ Inr [] # rest)"
    by (rule gcp_rejected_as_empty)
  then show "gcp_get_h200_prices (before @ Inr [(gcp_variant, s)] # rest)
         = gcp_get_h200_prices (before @ Inr [] # rest)"
    by (simp add: gcp_get_h200_prices_def)
next
  assume "list_all (one_key_result hyperbolic_variant) methods"
  then show "hyperbolic_get_h200_prices methods = []
       \<or> (\<exists>s' v'. hyperbolic_get_h200_prices methods = [(hyperbolic_variant, s')]
              \<and> Inr [(hyperbolic_variant, s')] \<in> set methods
              \<and> price_of s' = Some v' \<and> 1 < v' \<and> v' < 10)"
    by (rule hyperbolic_yield)
next
  assume h: "list_all (one_key_result gcp_variant) methods \<and> gcp_get_h200_prices methods \<noteq> None"
  then have "gcp_first_valid methods \<noteq> []"
    by (auto simp: gcp_get_h200_prices_def Let_def split: if_splits)
  with h gcp_yield[of methods]
  show "\<exists>s' v'. gcp_first_valid methods = [(gcp_variant, s')]
              \<and> Inr [(gcp_variant, s')] \<in> set methods
              \<and> price_of s' = Some v' \<and> 5 < v' \<and> v' < 25"
    by auto
qed

theorem validate_prices_open_interval_witness:
  "hyperbolic_validate_prices [(hyperbolic_variant, ''$3.20/hr'')]
   \<and> \<not> gcp_validate_prices [(gcp_variant, ''$3.20/hr'')]
   \<and> hyperbolic_get_h200_prices
        [Inl ValueError, Inr [(hyperbolic_variant, ''$55.00/hr'')],
         Inr [(hyperbolic_variant, ''$3.20/hr'')]]
      = [(hyperbolic_variant, ''$3.20/hr'')]
   \<and> gcp_get_h200_prices [Inr [(gcp_variant, ''$55.00/hr'')], Inr [(gcp_variant, ''$10.85/hr'')]]
      = Some 10.85
   \<and> hyperbolic_get_h200_prices
        [Inr [(hyperbolic_variant, ''$3.20/hr'')], Inr [(hyperbolic_variant, ''$4.00/hr'')]]
      = [(hyperbolic_variant, ''$3.20/hr'')]
   \<and> gcp_first_valid [Inr [(gcp_variant, ''$10.85/hr'')], Inl ValueError]
      = [(gcp_variant, ''$10.85/hr'')]
   \<and> (\<exists>s' v'. Inr [(hyperbolic_variant, s')]
          \<in> set [Inl ValueError, Inr [(hyperbolic_variant, ''$55.00/hr'')],
                  Inr [(hyperbolic_variant, ''$3.20/hr'')]]
        \<and> price_of s' = Some v' \<and> 1 < v' \<and> v' < 10)
   \<and> (\<exists>s' v'. Inr [(gcp_variant, s')]
          \<in> set [Inr [(gcp_variant, ''$55.00/hr'')] :: py_error + (string \<times> string) list,
                  Inr [(gcp_variant, ''$10.85/hr'')]]
        \<and> price_of s' = Some v' \<and> 5 < v' \<and> v' < 25)"
proof -
  let ?hm = "[Inl ValueError, Inr [(hyperbolic_variant, ''$55.00/hr'')],
              Inr [(hyperbolic_variant, ''$3.20/hr'')]]"
  let ?gm = "[Inr [(gcp_variant, ''$55.00/hr'')] :: py_error + (string \<times> string) list,
              Inr [(gcp_variant, ''$10.85/hr'')]]"
  have p1: "price_of ''$3.20/hr'' = Some 3.2" by code_simp
  have p2: "price_of ''$55.00/hr'' = Some 55 \<and> \<not> (1 < (55 :: real) \<and> (55 :: real) < 10)"
    by code_simp
  have p3: "price_of ''$55.00/hr'' = Some 55 \<and> \<not> (5 < (55 :: real) \<and> (55 :: real) < 25)"
    by code_simp
  have a: "hyperbolic_validate_prices [(hyperbolic_variant, ''$3.20/hr'')]
           \<and> \<not> gcp_validate_prices [(gcp_variant, ''$3.20/hr'')]"
    using validate_prices_open_interval [where s = "''$3.20/hr''" and v = "3.2", THEN conjunct1, THEN mp, OF p1]
    by simp
  have h_rest: "hyperbolic_get_h200_prices
      ([Inl ValueError] @ Inr [] # [Inr [(hyperbolic_variant, ''$3.20/hr'')]])
      = [(hyperbolic_variant, ''$3.20/hr'')]"
    by code_simp
  have b: "hyperbolic_get_h200_prices ?hm = [(hyperbolic_variant, ''$3.20/hr'')]"
    using validate_prices_open_interval
      [where s = "''$55.00/hr''" and v = 55 and before = "[Inl ValueError]"
         and rest = "[Inr [(hyperbolic_variant, ''$3.20/hr'')]]",
       THEN conjunct2, THEN conjunct2, THEN conjunct2, THEN conjunct1, THEN mp, OF p2] h_rest
    by simp
  have g_rest: "gcp_get_h200_prices ([] @ Inr [] # [Inr [(gcp_variant, ''$10.85/hr'')]])
      = Some 10.85"
    by code_simp
  have c: "gcp_get_h200_prices ?gm = Some 10.85"
    using validate_prices_open_interval
      [where s = "''$55.00/hr''" and v = 55 and before = "[]"
         and rest = "[Inr [(gcp_variant, ''$10.85/hr'')]]",
       THEN conjunct2, THEN conjunct2, THEN conjunct2, THEN conjunct2, THEN conjunct1, THEN mp,
       OF p3] g_rest
    by simp
  have hk: "list_all (one_key_result hyperbolic_variant) ?hm"
    by (simp add: one_key_result_def)
  have gk: "list_all (one_key_result gcp_variant) ?gm \<and> gcp_get_h200_prices ?gm \<noteq> None"
    using c by (simp add: one_key_result_def)
  have d: "\<exists>s' v'. Inr [(hyperbolic_variant, s')] \<in> set ?hm
        \<and> price_of s' = Some v' \<and> 1 < v' \<and> v' < 10"
    using validate_prices_open_interval
      [where methods = ?hm, THEN conjunct2, THEN conjunct2, THEN conjunct2,
       THEN conjunct2, THEN conjunct2, THEN conjunct1, THEN mp, OF hk] b
    by auto
  have e: "\<exists>s' v'. Inr [(gcp_variant, s')] \<in> set ?gm
        \<and> price_of s' = Some v' \<and> 5 < v' \<and> v' < 25"
    using validate_prices_open_interval
      [where methods = ?gm, THEN conjunct2, THEN conjunct2, THEN conjunct2,
       THEN conjunct2, THEN conjunct2, THEN conjunct2, THEN mp, OF gk]
    by (elim exE conjE) (intro exI conjI; assumption)
  have q: "price_of ''$3.20/hr'' = Some 3.2 \<and> 1 < (3.2 :: real) \<and> (3.2 :: real) < 10"
    by code_simp
  have f: "hyperbolic_get_h200_prices
        (Inr [(hyperbolic_variant, ''$3.20/hr'')] # [Inr [(hyperbolic_variant, ''$4.00/hr'')]])
      = [(hyperbolic_variant, ''$3.20/hr'')]"
    using validate_prices_open_interval
      [where s = "''$3.20/hr''" and v = "3.2"
         and rest = "[Inr [(hyperbolic_variant, ''$4.00/hr'')]]",
       THEN conjunct2, THEN conjunct1, THEN mp, OF q]
    by simp
  have q': "price_of ''$10.85/hr'' = Some 10.85 \<and> 5 < (10.85 :: real) \<and> (10.85 :: real) < 25"
    by code_simp
  have g: "gcp_first_valid (Inr [(gcp_variant, ''$10.85/hr'')] # [Inl ValueError])
      = [(gcp_variant, ''$10.85/hr'')]"
    using validate_prices_open_interval
      [where s = "''$10.85/hr''" and v = "10.85" and rest = "[Inl ValueError]",
       THEN conjunct2, THEN conjunct2, THEN conjunct1, THEN mp, OF q']
    by simp
  show ?thesis
    using a b c d e f g by (intro conjI) simp_all
qed

text \<open>
  C8 as stated fails at the bounds: the price 1.00 lies in the closed interval
  \<open>[1.0, 10.0]\<close>, yet the Hyperbolic scraper rejects it and yields nothing; the price 25.00
  lies in \<open>[5, 25]\<close>, yet the GCP scraper rejects it.
\<close>

theorem bounds_themselves_are_rejected:
  "plausible_closed 1.0 10.0 1.0
   \<and> price_of ''$1.00/hr'' = Some 1.0
   \<and> \<not> hyperbolic_validate_prices [(''H200 (Hyperbolic)'', ''$1.00/hr'')]
   \<and> hyperbolic_get_h200_prices [Inr [(''H200 (Hyperbolic)'', ''$1.00/hr'')]] = []
   \<and> plausible_closed 5 25 25
   \<and> price_of ''$25.00/hr'' = Some 25
   \<and> \<not> gcp_validate_prices [(''A3-Ultra (Google Cloud)'', ''$25.00/hr'')]"
  by code_simp

subsection \<open>Monthly prices in rupees\<close>

text \<open>
  C9.  The AceCloud scraper averages the per-GPU monthly prices (each row's monthly price
  divided by its GPU count), divides by the constant 730 hours per month and multiplies by
  the exchange rate.  For a monthly price of 213500 rupees, one GPU and the rate 0.012 the
  hourly price is \<open>213500 / 730 * 0.012\<close>, shown with two decimals as 3.51.
\<close>

theorem acecloud_monthly_to_hourly:
  "(rate \<noteq> 0 \<and> prices \<noteq> [] \<longrightarrow>
      map_option usd_hourly (acecloud_get_h200_prices (Some rate) [Inr prices])
        = Some (sum_list prices / real (length prices) / 730 * rate))
   \<and> (rate \<noteq> 0 \<and> g \<noteq> 0 \<longrightarrow>
      map_option usd_hourly (acecloud_get_h200_prices (Some rate)
          [try_pricing_page [\<lparr>gpu_count = g, monthly_price = Some m\<rparr>]])
        = Some (m / real g / 730 * rate))
   \<and> map_option usd_hourly (acecloud_get_h200_prices (Some 0.012)
          [try_pricing_page [\<lparr>gpu_count = 1, monthly_price = Some 213500\<rparr>]])
        = Some (213500 / 730 * 0.012)
   \<and> map_option display_usd_hourly (acecloud_get_h200_prices (Some 0.012)
          [try_pricing_page [\<lparr>gpu_count = 1, monthly_price = Some 213500\<rparr>]])
        = Some 3.51"
proof (intro conjI impI)
  assume "rate \<noteq> 0 \<and> prices \<noteq> []"
  then show "map_option usd_hourly (acecloud_get_h200_prices (Some rate) [Inr prices])
        = Some (sum_list prices / real (length prices) / 730 * rate)"
    by (simp add: acecloud_get_h200_prices_def Let_def)
next
  assume "rate \<noteq> 0 \<and> g \<noteq> 0"
  then show "map_option usd_hourly (acecloud_get_h200_prices (Some rate)
          [try_pricing_page [\<lparr>gpu_count = g, monthly_price = Some m\<rparr>]])
        = Some (m / real g / 730 * rate)"
    by (simp add: acecloud_get_h200_prices_def try_pricing_page_def Let_def)
next
  show "map_option usd_hourly (acecloud_get_h200_prices (Some 0.012)
          [try_pricing_page [\<lparr>gpu_count = 1, monthly_price = Some 213500\<rparr>]])
        = Some (213500 / 730 * 0.012)"
    by (simp add: acecloud_get_h200_prices_def try_pricing_page_def Let_def)
next
  show "map_option display_usd_hourly (acecloud_get_h200_prices (Some 0.012)
          [try_pricing_page [\<lparr>gpu_count = 1, monthly_price = Some 213500\<rparr>]])
        = Some 3.51"
    by code_simp
qed

theorem acecloud_monthly_to_hourly_witness:
  "map_option usd_hourly (acecloud_get_h200_prices (Some 0.012) [Inr [213500, 400000 / 2]])
     = Some ((213500 + 200000) / 2 / 730 * 0.012)
   \<and> map_option usd_hourly (acecloud_get_h200_prices (Some 0.012)
          [try_pricing_page [\<lparr>gpu_count = 2, monthly_price = Some 400000\<rparr>]])
     = Some (400000 / 2 / 730 * 0.012)"
proof -
  have h1: "(0.012 :: real) \<noteq> 0 \<and> [213500, 400000 / 2 :: real] \<noteq> []" by simp
  have h2: "(0.012 :: real) \<noteq> 0 \<and> (2 :: nat) \<noteq> 0" by simp
  show ?thesis
    using acecloud_monthly_to_hourly [of "0.012" "[213500, 400000 / 2]" 2 400000,
            THEN conjunct1, THEN mp, OF h1]
          acecloud_monthly_to_hourly [of "0.012" "[213500, 400000 / 2]" 2 400000,
            THEN conjunct2, THEN conjunct1, THEN mp, OF h2]
    by simp
qed

end
